theory Spec2Isabelle
  imports Main
begin

section \<open>JavaScript strings\<close>

text \<open>
  The engine of \<^verbatim>\<open>app.js\<close> (class \<^verbatim>\<open>AssignmentHelper\<close>) works on JavaScript strings by
  lower-casing, substring containment, prefix tests, trimming and splitting. A string is
  modelled as a \<^typ>\<open>string\<close>, a list of 8-bit characters, read as the code units
  below 256: \<^verbatim>\<open>toLowerCase\<close> folds the letters A to Z and the capital letters from
  code 192 to code 222 (code 215, the multiplication sign, is no letter), and white space is
  the space, the codes 9 to 13 and the no-break space of code 160. Text with code units
  from 256 on is not covered.
\<close>

definition lowerChar :: "char \<Rightarrow> char" where
  "lowerChar c =
     (let n = of_char c :: nat in
      if (65 \<le> n \<and> n \<le> 90) \<or> (192 \<le> n \<and> n \<le> 222 \<and> n \<noteq> 215)
      then char_of (n + 32) else c)"

definition toLowerCase :: "string \<Rightarrow> string" where
  "toLowerCase s = map lowerChar s"

definition startsWith :: "string \<Rightarrow> string \<Rightarrow> bool" where
  "startsWith s p = (take (length p) s = p)"

fun includesStr :: "string \<Rightarrow> string \<Rightarrow> bool" where
  "includesStr [] p = (p = [])"
| "includesStr (c # cs) p = (startsWith (c # cs) p \<or> includesStr cs p)"

definition endsWith :: "string \<Rightarrow> string \<Rightarrow> bool" where
  "endsWith s p = startsWith (rev s) (rev p)"

definition isSpace :: "char \<Rightarrow> bool" where
  "isSpace c = (let n = of_char c :: nat in n = 32 \<or> (9 \<le> n \<and> n \<le> 13) \<or> n = 160)"

definition trim :: "string \<Rightarrow> string" where
  "trim s = rev (dropWhile isSpace (rev (dropWhile isSpace s)))"

text \<open>\<^verbatim>\<open>s.split(' ')\<close>: the pieces between single spaces; the empty string gives one piece.\<close>

fun split_space :: "string \<Rightarrow> string list" where
  "split_space [] = [[]]"
| "split_space (c # cs) =
     (if c = CHR '' '' then [] # split_space cs
      else (case split_space cs of [] \<Rightarrow> [[c]] | w # ws \<Rightarrow> (c # w) # ws))"

text \<open>
  \<^verbatim>\<open>s.trim().split(/\s+/).length\<close>: the number of maximal runs of characters that are
  not white space, and 1 for a string with no such run (the split of the empty string is
  one empty piece).
\<close>

fun countWords :: "bool \<Rightarrow> string \<Rightarrow> nat" where
  "countWords inWord [] = 0"
| "countWords inWord (c # cs) =
     (if isSpace c then countWords False cs
      else if inWord then countWords True cs
      else Suc (countWords True cs))"

definition wordCount :: "string \<Rightarrow> nat" where
  "wordCount s = (let n = countWords False s in if n = 0 then 1 else n)"

text \<open>\<^verbatim>\<open>xs.some(p)\<close> on an array, and the guarded form \<^verbatim>\<open>xs && xs.some(p)\<close> on an
  array that a degraded configuration may lack.\<close>

definition some :: "'a list \<Rightarrow> ('a \<Rightarrow> bool) \<Rightarrow> bool" where
  "some xs p = list_ex p xs"

fun someOpt :: "'a list option \<Rightarrow> ('a \<Rightarrow> bool) \<Rightarrow> bool" where
  "someOpt None p = False"
| "someOpt (Some xs) p = some xs p"

text \<open>
  The regular expressions of the program are case-insensitive and match a finite set of
  literal strings, anywhere in the text (\<^verbatim>\<open>/because/i\<close>,
  \<^verbatim>\<open>/help me (write|do|complete|finish)/i\<close>) or at its start
  (\<^verbatim>\<open>/^(actually|wait)/i\<close>). A pattern is kept as the list of its literal strings.
\<close>

datatype regex = Anywhere "string list" | AtStart "string list"

fun test :: "regex \<Rightarrow> string \<Rightarrow> bool" where
  "test (Anywhere alts) s = some alts (\<lambda>a. includesStr (toLowerCase s) a)"
| "test (AtStart alts) s = some alts (\<lambda>a. startsWith (toLowerCase s) a)"

section \<open>Conversation modes and the rule configuration\<close>

text \<open>
  A mode is a JavaScript value: a string, \<^verbatim>\<open>null\<close> (the initial
  \<^verbatim>\<open>conversationMode\<close>) or \<^verbatim>\<open>undefined\<close> (what reading a key that the table
  \<^verbatim>\<open>MODES\<close> lacks gives). Comparison with \<^verbatim>\<open>===\<close> is equality of these values.
\<close>

datatype mode_value = Undefined | Null | Str string

fun truthy :: "mode_value \<Rightarrow> bool" where
  "truthy (Str s) = (s \<noteq> [])"
| "truthy _ = False"

record modes =
  LISTENING :: mode_value
  CLARIFYING :: mode_value
  OFFERING_DIRECTION :: mode_value
  CALMING :: mode_value
  STEPPING :: mode_value
  SHRINKING :: mode_value
  PAUSED :: mode_value
  UNDERSTANDING :: mode_value

record certaintyHandling_cfg =
  lowCertaintyMarkers :: "string list option"
  highCertaintyMarkers :: "string list option"

record intensityAsInformation_cfg =
  lossOfFunctionSignals :: "string list option"
  intensityOnlySignals :: "string list option"

text \<open>Of a principle such as \<^verbatim>\<open>normalizeConflict\<close> the program reads the flag
  \<^verbatim>\<open>enabled\<close> only: the field holds that flag when the principle is present.\<close>

record dobrowskiPrinciples_cfg =
  enabled :: bool
  normalizeConflict :: "bool option"
  intensityAsInformation :: "intensityAsInformation_cfg option"
  validateWithoutGlorifying :: "bool option"
  meaningMakingOptIn :: "bool option"

record reasoning_cfg =
  certaintyHandling :: "certaintyHandling_cfg option"
  dobrowskiPrinciples :: "dobrowskiPrinciples_cfg option"

record inputClassification_cfg =
  overwhelmSignals :: "string list option"
  shrinkSignals :: "string list option"
  explanatoryPatterns :: "regex list option"
  emotionalKeywords :: "string list option"
  assignmentKeywords :: "string list option"
  directRequestPatterns :: "regex list option"

record emotionalAcknowledgment_cfg =
  canSay :: "string list option"

record personality_cfg =
  emotionalAcknowledgment :: "emotionalAcknowledgment_cfg option"

text \<open>
  \<^verbatim>\<open>FRANK_CONFIG\<close>, as far as the engine reads it. Every section is optional, since a
  degraded configuration may lack it; the global itself may be undefined, which is the
  value \<^term>\<open>None\<close> of a \<open>config option\<close>.
\<close>

text \<open>Of the rule \<^verbatim>\<open>filterInappropriateContent\<close> the program reads the flag and the
  keyword lists of the categories.\<close>

record filterInappropriateContent_cfg =
  filterEnabled :: bool
  categories :: "string list list option"

record rules_cfg =
  filterInappropriateContent :: "filterInappropriateContent_cfg option"

record config =
  conversationModes :: "modes option"
  reasoning :: "reasoning_cfg option"
  inputClassification :: "inputClassification_cfg option"
  personality :: "personality_cfg option"
  rules :: "rules_cfg option"

text \<open>The table \<^verbatim>\<open>MODES\<close> is built once, when \<^verbatim>\<open>app.js\<close> is loaded: the
  configuration's \<^verbatim>\<open>conversationModes\<close> when there is one, the built-in table otherwise.\<close>

definition fallbackModes :: modes where
  "fallbackModes = \<lparr>
     LISTENING = Str ''listening'',
     CLARIFYING = Str ''clarifying'',
     OFFERING_DIRECTION = Str ''offering_direction'',
     CALMING = Str ''calming'',
     STEPPING = Str ''stepping'',
     SHRINKING = Str ''offering_direction'',
     PAUSED = Str ''calming'',
     UNDERSTANDING = Str ''listening'' \<rparr>"

definition MODES :: "config option \<Rightarrow> modes" where
  "MODES cfg =
     (case cfg of
        None \<Rightarrow> fallbackModes
      | Some c \<Rightarrow> (case conversationModes c of None \<Rightarrow> fallbackModes | Some m \<Rightarrow> m))"

subsection \<open>The configuration files of the repository\<close>

definition lowCertaintyMarkersList :: "string list" where
  "lowCertaintyMarkersList =
     [''i think'', ''maybe'', ''perhaps'', ''might'', ''could be'', ''it feels like'',
      ''it seems like'', ''i'm not sure'', ''im not sure'', ''i guess'', ''i suppose'',
      ''sort of'', ''kind of'', ''a little'', ''a bit'', ''somewhat'', ''possibly'',
      ''i wonder'', ''not really sure'', ''not sure'', ''unsure'', ''uncertain'']"

definition highCertaintyMarkersList :: "string list" where
  "highCertaintyMarkersList =
     [''i hate'', ''i love'', ''this is'', ''that is'', ''it is'', ''always'', ''never'',
      ''impossible'', ''can't'', ''cannot'', ''won't'', ''will not'', ''definitely'',
      ''absolutely'', ''completely'', ''totally'', ''pointless'', ''useless'', ''waste'',
      ''i can't'', ''i cannot'', ''i give up'', ''i'm done'', ''im done'']"

definition lossOfFunctionSignalsList :: "string list" where
  "lossOfFunctionSignalsList =
     [''i can't think'', ''can't process'', ''brain won't work'', ''mind is blank'',
      ''can't focus'', ''can't function'', ''shut down'', ''frozen'', ''paralyzed'',
      ''completely stuck'', ''nothing works'', ''can't do anything'']"

definition intensityOnlySignalsList :: "string list" where
  "intensityOnlySignalsList =
     [''unbearable'', ''too much'', ''overwhelming'', ''intense'', ''extreme'',
      ''can't stand'', ''hate this'', ''terrible'', ''awful'', ''worst'']"

definition overwhelmSignalsList :: "string list" where
  "overwhelmSignalsList =
     [''i can't'', ''i cannot'', ''too much'', ''too hard'', ''i give up'',
      ''this is too much'', ''can't do this'', ''cannot do this'',
      ''shutdown'', ''shut down'', ''freeze'', ''frozen'', ''stuck'', ''trapped'',
      ''i'm done'', ''im done'', ''can't handle'', ''cannot handle'']"

definition shrinkSignalsList :: "string list" where
  "shrinkSignalsList =
     [''make it smaller'', ''break it down'', ''too big'', ''too large'',
      ''smaller steps'', ''tiny step'', ''one step'', ''simpler'']"

definition explanatoryPatternsList :: "regex list" where
  "explanatoryPatternsList =
     [Anywhere [''it doesn't feel''], Anywhere [''it doesnt feel''],
      Anywhere [''it doesn't seem''], Anywhere [''it doesnt seem''],
      Anywhere [''because''], Anywhere [''the problem is''],
      Anywhere [''what's wrong is''], Anywhere [''whats wrong is''],
      Anywhere [''doesn't connect''], Anywhere [''doesnt connect''],
      Anywhere [''not relevant''], Anywhere [''irrelevant'']]"

definition emotionalKeywordsList :: "string list" where
  "emotionalKeywordsList =
     [''hate'', ''love'', ''feel'', ''feeling'', ''frustrated'', ''anxious'', ''stressed'',
      ''overwhelmed'', ''stuck'', ''difficult'', ''hard'', ''sucks'', ''boring'', ''pointless'',
      ''useless'', ''waste of time'', ''don't care'', ''dont care'',
      ''impossible'', ''too much'', ''too hard'']"

definition assignmentKeywordsList :: "string list" where
  "assignmentKeywordsList =
     [''assignment'', ''essay'', ''paper'', ''write a'', ''write an'', ''read the'',
      ''read a'', ''read an'', ''book report'', ''compare'', ''contrast'', ''analyze'',
      ''research paper'', ''research project'', ''homework assignment'', ''due date'',
      ''how do i'', ''how to'', ''what should i'', ''help me'', ''show me'', ''explain'',
      ''break down'', ''steps'', ''guide'', ''walk me through'']"

definition directRequestPatternsList :: "regex list" where
  "directRequestPatternsList =
     [Anywhere [''help me write'', ''help me do'', ''help me complete'', ''help me finish''],
      Anywhere [''how do i''], Anywhere [''how to''], Anywhere [''show me''],
      Anywhere [''break down''], Anywhere [''steps''], Anywhere [''guide'']]"

definition canSayList :: "string list" where
  "canSayList =
     [''This kind of assignment can feel heavy.'', ''A lot of people get stuck here.'',
      ''You're not behind.'', ''This looks like a lot.'']"

definition rulesSection :: rules_cfg where
  "rulesSection = \<lparr> filterInappropriateContent = Some \<lparr>
     filterEnabled = True,
     categories = Some
       [[''sexual'', ''sex'', ''porn'', ''nude'', ''naked'', ''masturbat'', ''orgasm'', ''erotic'',
         ''kink'', ''fetish'', ''intercourse'', ''genital'', ''penis'', ''vagina'', ''breast'',
         ''ass'', ''butt'', ''dick'', ''pussy''],
        [''kill'', ''murder'', ''suicide'', ''bomb'', ''weapon'', ''gun'', ''shoot'', ''stab'',
         ''attack'', ''assault'', ''violence'', ''violent'', ''harm'', ''hurt'', ''torture'',
         ''abuse'', ''fight'', ''war'', ''battle''],
        [''self harm'', ''self-harm'', ''cutting'', ''cut myself'', ''hurt myself'',
         ''end my life'', ''kill myself'', ''suicide'', ''suicidal'', ''overdose'',
         ''overdosing'', ''hang myself'', ''jump off'', ''end it'']] \<rparr> \<rparr>"

definition inputClassificationSection :: inputClassification_cfg where
  "inputClassificationSection = \<lparr>
     overwhelmSignals = Some overwhelmSignalsList,
     shrinkSignals = Some shrinkSignalsList,
     explanatoryPatterns = Some explanatoryPatternsList,
     emotionalKeywords = Some emotionalKeywordsList,
     assignmentKeywords = Some assignmentKeywordsList,
     directRequestPatterns = Some directRequestPatternsList \<rparr>"

definition personalitySection :: personality_cfg where
  "personalitySection = \<lparr> emotionalAcknowledgment = Some \<lparr> canSay = Some canSayList \<rparr> \<rparr>"

definition certaintyHandlingSection :: certaintyHandling_cfg where
  "certaintyHandlingSection = \<lparr>
     lowCertaintyMarkers = Some lowCertaintyMarkersList,
     highCertaintyMarkers = Some highCertaintyMarkersList \<rparr>"

text \<open>The configuration with the loss-of-function and intensity signals (version 2.0.0
  with \<^verbatim>\<open>dobrowskiPrinciples\<close>). Its \<^verbatim>\<open>conversationModes\<close> has the keys
  \<^verbatim>\<open>LISTENING\<close>, \<^verbatim>\<open>CLARIFYING\<close>, \<^verbatim>\<open>UNDERSTANDING\<close>, \<^verbatim>\<open>SHRINKING\<close>,
  \<^verbatim>\<open>STEPPING\<close> and \<^verbatim>\<open>PAUSED\<close>, and no others that hold a mode.\<close>

definition FRANK_CONFIG :: config where
  "FRANK_CONFIG = \<lparr>
     conversationModes = Some \<lparr>
       LISTENING = Str ''listening'',
       CLARIFYING = Str ''clarifying'',
       OFFERING_DIRECTION = Undefined,
       CALMING = Undefined,
       STEPPING = Str ''stepping'',
       SHRINKING = Str ''shrinking'',
       PAUSED = Str ''paused'',
       UNDERSTANDING = Str ''understanding'' \<rparr>,
     reasoning = Some \<lparr>
       certaintyHandling = Some certaintyHandlingSection,
       dobrowskiPrinciples = Some \<lparr>
         enabled = True,
         normalizeConflict = Some True,
         intensityAsInformation = Some \<lparr>
           lossOfFunctionSignals = Some lossOfFunctionSignalsList,
           intensityOnlySignals = Some intensityOnlySignalsList \<rparr>,
         validateWithoutGlorifying = Some True,
         meaningMakingOptIn = Some True \<rparr> \<rparr>,
     inputClassification = Some inputClassificationSection,
     personality = Some personalitySection,
     rules = Some rulesSection \<rparr>"

text \<open>The file \<^verbatim>\<open>config.js\<close>: the same lists, no \<^verbatim>\<open>dobrowskiPrinciples\<close>, and
  a table of modes without \<^verbatim>\<open>UNDERSTANDING\<close>.\<close>

definition FRANK_CONFIG_config_js :: config where
  "FRANK_CONFIG_config_js = \<lparr>
     conversationModes = Some \<lparr>
       LISTENING = Str ''listening'',
       CLARIFYING = Str ''clarifying'',
       OFFERING_DIRECTION = Undefined,
       CALMING = Undefined,
       STEPPING = Str ''stepping'',
       SHRINKING = Str ''shrinking'',
       PAUSED = Str ''paused'',
       UNDERSTANDING = Undefined \<rparr>,
     reasoning = Some \<lparr>
       certaintyHandling = Some certaintyHandlingSection,
       dobrowskiPrinciples = None \<rparr>,
     inputClassification = Some inputClassificationSection,
     personality = Some personalitySection,
     rules = Some rulesSection \<rparr>"

section \<open>The input classifier\<close>

datatype certainty = Low | Medium | High

text \<open>The guard of \<^verbatim>\<open>detectCertaintyLevel\<close>: the section
  \<^verbatim>\<open>FRANK_CONFIG.reasoning.certaintyHandling\<close>, when all of the path is there.\<close>

definition certaintyConfig :: "config option \<Rightarrow> certaintyHandling_cfg option" where
  "certaintyConfig cfg =
     (case cfg of None \<Rightarrow> None
      | Some c \<Rightarrow> (case reasoning c of None \<Rightarrow> None | Some r \<Rightarrow> certaintyHandling r))"

definition detectCertaintyLevel :: "config option \<Rightarrow> string \<Rightarrow> certainty" where
  "detectCertaintyLevel cfg userInput =
     (if userInput = [] then Medium
      else case certaintyConfig cfg of
        None \<Rightarrow> Medium
      | Some certaintyCfg \<Rightarrow>
          (let lowerInput = toLowerCase userInput in
           if someOpt (highCertaintyMarkers certaintyCfg) (\<lambda>marker. includesStr lowerInput marker)
           then High
           else if someOpt (lowCertaintyMarkers certaintyCfg) (\<lambda>marker. includesStr lowerInput marker)
           then Low
           else Medium))"

text \<open>The expression that \<^verbatim>\<open>classifyInput\<close>, \<^verbatim>\<open>mirrorEmotion\<close> and
  \<^verbatim>\<open>handleIntensityAsInformation\<close> share: the section \<^verbatim>\<open>dobrowskiPrinciples\<close>
  when it is there and enabled, \<^verbatim>\<open>null\<close> otherwise.\<close>

definition dobrowskiEnabled :: "config option \<Rightarrow> dobrowskiPrinciples_cfg option" where
  "dobrowskiEnabled cfg =
     (case cfg of None \<Rightarrow> None
      | Some c \<Rightarrow>
          (case reasoning c of None \<Rightarrow> None
           | Some r \<Rightarrow>
               (case dobrowskiPrinciples r of None \<Rightarrow> None
                | Some d \<Rightarrow> if enabled d then Some d else None)))"

record signal =
  sigType :: string
  sigInput :: string
  sigCertaintyLevel :: certainty
  hasLossOfFunction :: "bool option"

record turn =
  turnInput :: string
  turnSignal :: string
  turnCertaintyLevel :: certainty
  timestamp :: nat
  hadQuestion :: bool
  lastQuestion :: "string option"
  selectedDirection :: "string option"
  userSelectedPause :: bool
  internalState :: "string option"
  transitionedFromClarifying :: bool

text \<open>The fields of an \<^verbatim>\<open>AssignmentHelper\<close> that the engine reads and writes.\<close>

record helper =
  conversationMode :: mode_value
  lastUserInput :: "string option"
  conversationContext :: "turn list"
  currentAssignment :: "string option"

definition classifyInput :: "modes \<Rightarrow> config option \<Rightarrow> helper \<Rightarrow> string \<Rightarrow> signal" where
  "classifyInput M cfg this userInput =
     (let lowerInput = toLowerCase userInput in
      case (case cfg of None \<Rightarrow> None | Some c \<Rightarrow> inputClassification c) of
        None \<Rightarrow>
          (if length (split_space userInput) < 10
           then \<lparr> sigType = ''emotional'', sigInput = userInput, sigCertaintyLevel = Medium,
                  hasLossOfFunction = None \<rparr>
           else \<lparr> sigType = ''ready_for_action'', sigInput = userInput,
                  sigCertaintyLevel = Medium, hasLossOfFunction = None \<rparr>)
      | Some classificationConfig \<Rightarrow>
          (let certaintyLevel = detectCertaintyLevel cfg userInput;
               dobrowskiConfig =
                 (case dobrowskiEnabled cfg of None \<Rightarrow> None
                  | Some d \<Rightarrow> intensityAsInformation d);
               sig = (\<lambda>t l. \<lparr> sigType = t, sigInput = userInput,
                               sigCertaintyLevel = certaintyLevel, hasLossOfFunction = l \<rparr>)
           in
           if (case dobrowskiConfig of None \<Rightarrow> False
               | Some d \<Rightarrow> someOpt (lossOfFunctionSignals d) (\<lambda>s. includesStr lowerInput s))
           then sig ''overwhelmed'' (Some True)
           else if (case dobrowskiConfig of None \<Rightarrow> False
               | Some d \<Rightarrow> someOpt (intensityOnlySignals d) (\<lambda>s. includesStr lowerInput s))
           then sig ''intense_emotion'' (Some False)
           else if someOpt (overwhelmSignals classificationConfig) (\<lambda>s. includesStr lowerInput s)
           then sig ''overwhelmed'' (Some False)
           else if someOpt (shrinkSignals classificationConfig) (\<lambda>s. includesStr lowerInput s)
           then sig ''request_to_shrink'' None
           else if conversationMode this = CLARIFYING M \<and> trim userInput \<noteq> []
           then sig ''ready_for_action'' None
           else if conversationMode this \<noteq> CLARIFYING M
                   \<and> someOpt (explanatoryPatterns classificationConfig) (\<lambda>p. test p userInput)
           then sig ''explanatory'' None
           else if someOpt (emotionalKeywords classificationConfig) (\<lambda>k. includesStr lowerInput k)
           then sig ''emotional'' None
           else if someOpt (assignmentKeywords classificationConfig) (\<lambda>k. includesStr lowerInput k)
           then sig ''ready_for_action'' None
           else if length (split_space userInput) < 10
           then sig ''emotional'' None
           else sig ''ready_for_action'' None))"

text \<open>\<^verbatim>\<open>detectsOverwhelmSignal\<close>: an informational input counts only when it also has an
  explicit signal of the first list; then the second list decides.\<close>

definition informationalPatterns :: "string list" where
  "informationalPatterns =
     [''irrelevant'', ''pointless'', ''doesn't matter'', ''doesnt matter'', ''don't care'',
      ''dont care'', ''boring'', ''useless'', ''waste'', ''not important'', ''not relevant'',
      ''doesn't make sense'', ''doesnt make sense'', ''no point'', ''why do i need'',
      ''why do we need'']"

definition explicitOverwhelmSignals :: "string list" where
  "explicitOverwhelmSignals =
     [''too much'', ''can't'', ''cannot'', ''overwhelmed'', ''stressed'', ''anxious'',
      ''panic'', ''shut down'', ''frozen'', ''paralyzed'', ''can't think'', ''can't process'',
      ''brain won't work'', ''mind is blank'', ''can't focus'', ''can't function'',
      ''completely stuck'', ''nothing works'', ''can't do anything'', ''i give up'',
      ''i'm done'', ''im done'', ''i can't do this'', ''i cannot do this'']"

definition detectsOverwhelmSignal :: "string \<Rightarrow> bool" where
  "detectsOverwhelmSignal input =
     (if input = [] then False
      else
        (let lowerInput = toLowerCase input;
             isInformational = some informationalPatterns (\<lambda>pattern. includesStr lowerInput pattern)
         in
         if isInformational
            \<and> \<not> some explicitOverwhelmSignals (\<lambda>signal. includesStr lowerInput signal)
         then False
         else some overwhelmSignalsList (\<lambda>signal. includesStr lowerInput signal)))"

section \<open>The texts of a response\<close>

text \<open>The test \<^verbatim>\<open>d && d.principle && d.principle.enabled\<close> on the enabled section
  \<^verbatim>\<open>dobrowskiPrinciples\<close>.\<close>

definition principleEnabled ::
  "config option \<Rightarrow> (dobrowskiPrinciples_cfg \<Rightarrow> bool option) \<Rightarrow> bool" where
  "principleEnabled cfg principle =
     (case dobrowskiEnabled cfg of None \<Rightarrow> False | Some d \<Rightarrow> principle d = Some True)"

definition mirrorEmotion :: "config option \<Rightarrow> string \<Rightarrow> certainty \<Rightarrow> string" where
  "mirrorEmotion cfg userInput certaintyLevel =
     (let lowerInput = toLowerCase userInput;
          isLowCertainty = (certaintyLevel = Low)
      in
      if (includesStr lowerInput ''don't know why'' \<or> includesStr lowerInput ''dont know why''
          \<or> includesStr lowerInput ''bother'' \<or> includesStr lowerInput ''bothers me'')
         \<and> principleEnabled cfg normalizeConflict
      then (if isLowCertainty then ''If it's bothering you this much, it probably matters to you.''
            else ''If it's bothering you this much, it probably matters to you.'')
      else if (includesStr lowerInput ''worse'' \<or> includesStr lowerInput ''feeling worse''
          \<or> includesStr lowerInput ''used to'' \<or> includesStr lowerInput ''before'')
         \<and> principleEnabled cfg validateWithoutGlorifying
      then ''Sometimes feeling worse happens when you're noticing more, not because you're failing.''
      else if (includesStr lowerInput ''point'' \<or> includesStr lowerInput ''purpose''
          \<or> includesStr lowerInput ''doesn't matter'' \<or> includesStr lowerInput ''doesnt matter'')
         \<and> principleEnabled cfg meaningMakingOptIn
      then ''That question makes sense.''
      else if includesStr lowerInput ''hate''
      then (if isLowCertainty then ''It sounds like this might feel really hard.''
            else ''That sounds really hard.'')
      else if includesStr lowerInput ''doesn't feel relevant''
              \<or> includesStr lowerInput ''doesnt feel relevant''
      then (if isLowCertainty
            then ''If something feels like it might not be relevant, that can make it harder to care.''
            else ''If something feels pointless, it's way harder to care.'')
      else if includesStr lowerInput ''boring'' \<or> includesStr lowerInput ''pointless''
      then (if isLowCertainty
            then ''When something doesn't feel meaningful, it can be hard to engage with it.''
            else ''When something doesn't feel meaningful, it's hard to engage with it.'')
      else if includesStr lowerInput ''difficult'' \<or> includesStr lowerInput ''hard''
      then (if isLowCertainty then ''This might feel like a lot right now.''
            else ''This feels like a lot right now.'')
      else if includesStr lowerInput ''overwhelmed'' \<or> includesStr lowerInput ''too much''
      then ''This looks like a lot.''
      else if isLowCertainty then ''I hear you.''
      else ''I hear you.'')"

definition askOneClarifyingQuestion :: "string \<Rightarrow> certainty \<Rightarrow> string" where
  "askOneClarifyingQuestion userInput certaintyLevel =
     (let lowerInput = toLowerCase userInput;
          isLowCertainty = (certaintyLevel = Low)
      in
      if includesStr lowerInput ''hate''
      then (if isLowCertainty then ''What about it might feel the worst right now?''
            else ''What about it feels the worst right now?'')
      else if includesStr lowerInput ''doesn't feel relevant''
              \<or> includesStr lowerInput ''doesnt feel relevant''
      then (if isLowCertainty
            then ''Could it be that it doesn't connect to your life, or maybe you don't see why you're being asked to do it?''
            else ''Is the problem more that it doesn't connect to your life, or you don't see why you're being asked to do it?'')
      else if includesStr lowerInput ''boring'' \<or> includesStr lowerInput ''pointless''
      then (if isLowCertainty then ''What might be missing that would make it feel more meaningful?''
            else ''What's missing that would make it feel meaningful?'')
      else if includesStr lowerInput ''difficult'' \<or> includesStr lowerInput ''hard''
      then (if isLowCertainty then ''What part might feel the hardest?''
            else ''What part feels the hardest?'')
      else if includesStr lowerInput ''overwhelmed'' \<or> includesStr lowerInput ''too much''
      then ''What feels like too much?''
      else if isLowCertainty then ''What might be bothering you about this?''
      else ''What's bothering you about this?'')"

definition reflectMeaning :: "string \<Rightarrow> certainty \<Rightarrow> string" where
  "reflectMeaning userInput certaintyLevel =
     (let lowerInput = toLowerCase userInput;
          isLowCertainty = (certaintyLevel = Low)
      in
      if includesStr lowerInput ''doesn't feel relevant''
         \<or> includesStr lowerInput ''doesnt feel relevant''
      then (if isLowCertainty
            then ''If something feels like it might not be relevant, that can make it harder to care.''
            else ''If something feels pointless, it's way harder to care.'')
      else if includesStr lowerInput ''doesn't connect'' \<or> includesStr lowerInput ''doesnt connect''
      then (if isLowCertainty
            then ''When something doesn't seem to connect to your life, it can be hard to see why it matters.''
            else ''When something doesn't connect to your life, it's hard to see why it matters.'')
      else if includesStr lowerInput ''because''
      then ''I hear what you're saying.''
      else if isLowCertainty then ''That makes sense.''
      else ''That makes sense.'')"

definition narrowChoices :: "string \<Rightarrow> certainty \<Rightarrow> string" where
  "narrowChoices userInput certaintyLevel =
     (let lowerInput = toLowerCase userInput;
          isLowCertainty = (certaintyLevel = Low)
      in
      if includesStr lowerInput ''doesn't feel relevant''
         \<or> includesStr lowerInput ''doesnt feel relevant''
         \<or> includesStr lowerInput ''doesn't connect'' \<or> includesStr lowerInput ''doesnt connect''
      then (if isLowCertainty
            then ''Could it be that it doesn't connect to your life, or maybe you don't see why you're being asked to do it?''
            else ''Is the problem more that it doesn't connect to your life, or you don't see why you're being asked to do it?'')
      else if includesStr lowerInput ''boring'' \<or> includesStr lowerInput ''pointless''
      then (if isLowCertainty then ''What might need to change for it to feel more engaging?''
            else ''What would need to change for it to feel more engaging?'')
      else if isLowCertainty then ''Tell me more about that.''
      else ''Tell me more about that.'')"

definition gentleReassurance :: string where
  "gentleReassurance = ''You can pause whenever you want.''"

definition handleIntensityAsInformation :: "string \<Rightarrow> string" where
  "handleIntensityAsInformation userInput =
     (let lowerInput = toLowerCase userInput in
      if includesStr lowerInput ''unbearable'' \<or> includesStr lowerInput ''too much''
         \<or> includesStr lowerInput ''overwhelming'' \<or> includesStr lowerInput ''intense''
      then ''When something feels unbearable, it's often because it's colliding with something important.''
      else if includesStr lowerInput ''bother'' \<or> includesStr lowerInput ''bothers me''
      then ''If it's bothering you this much, it probably matters to you.''
      else ''This feels really intense right now.'')"

definition askFunctionCheckQuestion :: string where
  "askFunctionCheckQuestion = ''Are you still able to think, or do you want to slow things down?''"

section \<open>The answer detector\<close>

definition isShortOrDeclarative :: "string \<Rightarrow> bool" where
  "isShortOrDeclarative userInput =
     (let trimmed = trim userInput;
          wordCount = wordCount userInput;
          declarativePatterns =
            [AtStart (concat (map (\<lambda>a. map (\<lambda>b. a @ '' '' @ b)
                 [''is'', ''feels'', ''seems'', ''doesn't'', ''doesnt'', ''can't'', ''cannot''])
                 [''it'', ''this'', ''that'', ''i'', ''we'', ''they''])),
             AtStart [''because'', ''since'', ''when'', ''if''],
             AtStart [''i don't'', ''i dont'', ''i can't'', ''i cannot'', ''i'm'', ''im''],
             AtStart [''seems'', ''feels'', ''looks'', ''sounds'']];
          exploratoryStart =
            AtStart [''what'', ''why'', ''how'', ''when'', ''where'', ''who'', ''which'', ''can'',
                     ''could'', ''should'', ''would'', ''might'', ''maybe'', ''perhaps''];
          exploratoryAnywhere =
            Anywhere [''i think'', ''i wonder'', ''i guess'', ''i suppose'', ''i feel like'',
                      ''i feel as if'']
      in
      if wordCount \<le> 10 then True
      else if some declarativePatterns (\<lambda>pattern. test pattern trimmed) then True
      else if endsWith trimmed ''?'' \<or> test exploratoryStart trimmed
              \<or> test exploratoryAnywhere trimmed
      then False
      else wordCount \<le> 15)"

definition extractQuestionTopics :: "string \<Rightarrow> string list" where
  "extractQuestionTopics question =
     (let lowerQuestion = toLowerCase question in
      (if includesStr lowerQuestion ''worst'' \<or> includesStr lowerQuestion ''hardest''
       then [''worst'', ''hardest'', ''difficult'', ''problem'', ''issue''] else [])
      @ (if includesStr lowerQuestion ''relevant'' \<or> includesStr lowerQuestion ''matter''
         then [''relevant'', ''matter'', ''point'', ''purpose'', ''meaning''] else [])
      @ (if includesStr lowerQuestion ''connect''
         then [''connect'', ''relate'', ''link'', ''tie''] else [])
      @ (if includesStr lowerQuestion ''bother'' \<or> includesStr lowerQuestion ''difficult''
         then [''bother'', ''difficult'', ''hard'', ''problem'', ''issue''] else []))"

definition checkSemanticAlignment :: "modes \<Rightarrow> helper \<Rightarrow> string \<Rightarrow> string \<Rightarrow> bool" where
  "checkSemanticAlignment M this userInput previousQuestion =
     (let lowerInput = toLowerCase userInput;
          lowerQuestion = toLowerCase previousQuestion;
          questionTopics = extractQuestionTopics previousQuestion
      in
      if some questionTopics (\<lambda>topic. includesStr lowerInput topic) then True
      else if (includesStr lowerQuestion ''worst'' \<or> includesStr lowerQuestion ''hardest''
               \<or> includesStr lowerQuestion ''bother'' \<or> includesStr lowerQuestion ''difficult'')
              \<and> some [''irrelevant'', ''boring'', ''pointless'', ''hard'', ''difficult'',
                       ''bad at'', ''don't get'', ''dont get'', ''because'', ''seems'', ''feels'']
                   (\<lambda>indicator. includesStr lowerInput indicator)
      then True
      else if (includesStr lowerQuestion ''why'' \<or> includesStr lowerQuestion ''what makes''
               \<or> includesStr lowerQuestion ''what about'')
              \<and> (includesStr lowerInput ''because'' \<or> includesStr lowerInput ''since''
                   \<or> startsWith lowerInput ''it'' \<or> startsWith lowerInput ''this''
                   \<or> startsWith lowerInput ''that'')
      then True
      else if (includesStr lowerQuestion ''relevant'' \<or> includesStr lowerQuestion ''connect''
               \<or> includesStr lowerQuestion ''matter'' \<or> includesStr lowerQuestion ''point'')
              \<and> (includesStr lowerInput ''irrelevant'' \<or> includesStr lowerInput ''doesn't matter''
                   \<or> includesStr lowerInput ''doesnt matter'' \<or> includesStr lowerInput ''pointless''
                   \<or> includesStr lowerInput ''boring'')
      then True
      else if conversationMode this = CLARIFYING M \<and> length (trim userInput) > 3 then True
      else False)"

definition reducesAmbiguity :: "string \<Rightarrow> bool" where
  "reducesAmbiguity userInput =
     (let lowerInput = toLowerCase userInput;
          uncertaintyIndicators =
            [''i don't know'', ''i dont know'', ''not sure'', ''unsure'', ''uncertain'',
             ''maybe'', ''perhaps'', ''might'', ''could be'', ''possibly'',
             ''i think'', ''i guess'', ''i suppose'', ''i wonder'',
             ''what if'', ''how about'', ''why would'', ''could it''];
          uncertaintyCount = length (filter (\<lambda>indicator. includesStr lowerInput indicator)
                                       uncertaintyIndicators);
          answerIndicators =
            [''because'', ''since'', ''when'', ''it's'', ''its'', ''this is'', ''that is'',
             ''seems'', ''feels'', ''is'', ''are'', ''doesn't'', ''doesnt'', ''can't'', ''cannot'',
             ''irrelevant'', ''boring'', ''pointless'', ''hard'', ''difficult'', ''bad at'',
             ''don't get'', ''dont get''];
          answerCount = length (filter (\<lambda>indicator. includesStr lowerInput indicator)
                                  answerIndicators)
      in
      if uncertaintyCount > 1 then False
      else if answerCount > 0 \<and> uncertaintyCount = 0 then True
      else if answerCount > 0 \<and> uncertaintyCount \<le> 1 then True
      else if wordCount userInput \<le> 8 \<and> uncertaintyCount = 0 then True
      else uncertaintyCount = 0)"

definition isSemanticAnswer :: "modes \<Rightarrow> helper \<Rightarrow> string \<Rightarrow> string \<Rightarrow> bool" where
  "isSemanticAnswer M this userInput previousQuestion =
     (if \<not> isShortOrDeclarative userInput then False
      else if \<not> checkSemanticAlignment M this userInput previousQuestion then False
      else if \<not> reducesAmbiguity userInput then False
      else True)"

text \<open>The detector reads the last turn of \<^verbatim>\<open>this.conversationContext\<close>, whichever
  turn that is when it is called.\<close>

definition isAnsweringPreviousQuestion :: "modes \<Rightarrow> helper \<Rightarrow> string \<Rightarrow> bool" where
  "isAnsweringPreviousQuestion M this userInput =
     (if conversationContext this = [] then False
      else
        (let lastContext = last (conversationContext this) in
         if \<not> hadQuestion lastContext then False
         else case lastQuestion lastContext of
           None \<Rightarrow> conversationMode this = CLARIFYING M \<and> trim userInput \<noteq> []
         | Some previousQuestion \<Rightarrow>
             if previousQuestion = []
             then conversationMode this = CLARIFYING M \<and> trim userInput \<noteq> []
             else isSemanticAnswer M this userInput previousQuestion))"

definition introducesNewTopic :: "helper \<Rightarrow> string \<Rightarrow> bool" where
  "introducesNewTopic this userInput =
     (if conversationContext this = [] then False
      else
        (let lowerInput = toLowerCase userInput in
         if test (AtStart [''help me'', ''i need'', ''can you'', ''show me'', ''how do i'', ''how to''])
              userInput
            \<or> test (AtStart [''actually'', ''wait'', ''hold on'', ''never mind'', ''forget it'',
                             ''different'']) userInput
            \<or> endsWith userInput ''?''
            \<or> wordCount userInput > 20
         then True
         else if some [''what'', ''why'', ''how'', ''when'', ''where'', ''who'', ''which'', ''can'',
                       ''could'', ''should'', ''would''] (\<lambda>w. startsWith lowerInput w)
         then True
         else False))"

section \<open>Responses and the single-mode validator\<close>

record step =
  title :: string
  description :: string
  needsInput :: "bool option"
  inputPrompt :: "string option"
  inputPlaceholder :: "string option"
  checklist :: "string list option"
  analogy :: "string option"

text \<open>What \<^verbatim>\<open>presentNextTinyStep\<close> makes of a step: the message of a response in
  stepping mode. The message of any other response is a text.\<close>

record stepMessage =
  msgTitle :: string
  msgDescription :: string
  msgNeedsInput :: bool
  msgInputPrompt :: "string option"
  msgInputPlaceholder :: "string option"

datatype message = Text string | StepPayload stepMessage

record response =
  mode :: mode_value
  message :: message
  question :: "string option"
  actions :: "string list"
  transitionCue :: bool

text \<open>\<^verbatim>\<open>if (response.question)\<close>: a question that is neither \<^verbatim>\<open>null\<close> nor empty.\<close>

fun hasQuestion :: "string option \<Rightarrow> bool" where
  "hasQuestion None = False"
| "hasQuestion (Some q) = (q \<noteq> [])"

definition isPauseAction :: "string \<Rightarrow> bool" where
  "isPauseAction action =
     (includesStr (toLowerCase action) ''pause'' \<or> includesStr (toLowerCase action) ''come back''
      \<or> includesStr (toLowerCase action) ''later'')"

text \<open>
  \<^verbatim>\<open>validateSingleMode\<close> changes the response in place; the model returns the
  response it leaves. The mode is read once, before the checks (the argument \<open>m\<close>), and
  the function is a sequence of five blocks, one for each mode, each of which is a
  definition here.
\<close>

definition validateListening :: "modes \<Rightarrow> mode_value \<Rightarrow> response \<Rightarrow> response" where
  "validateListening M m response =
     (if m = LISTENING M
      then (let r = (if hasQuestion (question response)
                     then response\<lparr> mode := CLARIFYING M \<rparr> else response)
            in if actions r \<noteq> [] then r\<lparr> actions := [] \<rparr> else r)
      else response)"

definition validateClarifying :: "modes \<Rightarrow> mode_value \<Rightarrow> response \<Rightarrow> response" where
  "validateClarifying M m response =
     (if m = CLARIFYING M \<and> actions response \<noteq> [] then response\<lparr> actions := [] \<rparr>
      else response)"

definition validateOfferingDirection :: "modes \<Rightarrow> mode_value \<Rightarrow> response \<Rightarrow> response" where
  "validateOfferingDirection M m response =
     (if (m = OFFERING_DIRECTION M \<or> m = SHRINKING M) \<and> hasQuestion (question response)
      then response\<lparr> question := None \<rparr> else response)"

definition validateCalming :: "modes \<Rightarrow> mode_value \<Rightarrow> response \<Rightarrow> response" where
  "validateCalming M m response =
     (if m = CALMING M \<or> m = PAUSED M
      then (let r = (if hasQuestion (question response)
                     then response\<lparr> question := None \<rparr> else response);
                pauseActions = filter isPauseAction (actions r)
            in if actions r \<noteq> [] \<and> length pauseActions \<noteq> length (actions r)
               then r\<lparr> actions := pauseActions \<rparr> else r)
      else response)"

definition validateStepping :: "modes \<Rightarrow> mode_value \<Rightarrow> response \<Rightarrow> response" where
  "validateStepping M m response =
     (if m = STEPPING M \<and> hasQuestion (question response)
      then response\<lparr> question := None \<rparr> else response)"

definition validateSingleMode :: "modes \<Rightarrow> response \<Rightarrow> response" where
  "validateSingleMode M response =
     (if \<not> truthy (mode response) then response
      else
        (let m = mode response in
         validateStepping M m
           (validateCalming M m
             (validateOfferingDirection M m
               (validateClarifying M m
                 (validateListening M m response))))))"

section \<open>Answering a question\<close>

definition mirrorAnswer :: "string \<Rightarrow> certainty \<Rightarrow> string" where
  "mirrorAnswer userInput certaintyLevel =
     (let lowerInput = toLowerCase userInput;
          isLowCertainty = (certaintyLevel = Low)
      in
      if includesStr lowerInput ''doesn't feel relevant''
         \<or> includesStr lowerInput ''doesnt feel relevant'' \<or> includesStr lowerInput ''irrelevant''
      then (if isLowCertainty
            then ''If it feels like it might not be relevant, that can make it harder to care.''
            else ''If it feels irrelevant, that makes it hard to care or try.'')
      else if includesStr lowerInput ''boring'' \<or> includesStr lowerInput ''pointless''
      then ''When something doesn't feel meaningful, it's hard to engage with it.''
      else if includesStr lowerInput ''difficult'' \<or> includesStr lowerInput ''hard''
      then ''This feels like a lot right now.''
      else if includesStr lowerInput ''don't get'' \<or> includesStr lowerInput ''dont get''
              \<or> includesStr lowerInput ''don't understand''
              \<or> includesStr lowerInput ''dont understand''
      then ''Not understanding why you need to do something makes it harder to care.''
      else if includesStr lowerInput ''bad at'' \<or> includesStr lowerInput ''not good at''
      then ''Feeling like you're not good at something makes it harder to start.''
      else ''I hear you.'')"

definition acknowledgeUnderstanding :: "string \<Rightarrow> signal \<Rightarrow> string option" where
  "acknowledgeUnderstanding userInput signal =
     (let lowerInput = toLowerCase userInput in
      if includesStr lowerInput ''irrelevant'' \<or> includesStr lowerInput ''pointless''
         \<or> includesStr lowerInput ''boring''
      then Some ''We can go a few ways from here.''
      else if includesStr lowerInput ''hard'' \<or> includesStr lowerInput ''difficult''
              \<or> includesStr lowerInput ''stuck''
      then Some ''We can work with this.''
      else None)"

definition offerDirectionalOptions :: "string \<Rightarrow> signal \<Rightarrow> string list" where
  "offerDirectionalOptions userInput signal =
     (let lowerInput = toLowerCase userInput;
          hasExplicitOverwhelm = detectsOverwhelmSignal userInput;
          isExplanatory = (sigType signal = ''explanatory''
             \<or> includesStr lowerInput ''because'' \<or> includesStr lowerInput ''since''
             \<or> includesStr lowerInput ''it's'' \<or> includesStr lowerInput ''its''
             \<or> includesStr lowerInput ''feels like'' \<or> includesStr lowerInput ''seems like'')
      in
      if isExplanatory
      then [''That makes sense'', ''Talk more about this'', ''Help me get through the minimum'']
           @ (if hasExplicitOverwhelm then [''Pause for now''] else [])
      else if includesStr lowerInput ''irrelevant'' \<or> includesStr lowerInput ''doesn't matter''
              \<or> includesStr lowerInput ''doesnt matter'' \<or> includesStr lowerInput ''pointless''
              \<or> includesStr lowerInput ''boring'' \<or> includesStr lowerInput ''don't care''
              \<or> includesStr lowerInput ''dont care''
      then [''That makes sense'', ''Talk more about this'', ''Help me get through the minimum'']
           @ (if hasExplicitOverwhelm then [''Pause for now''] else [])
      else if includesStr lowerInput ''hard'' \<or> includesStr lowerInput ''difficult''
              \<or> includesStr lowerInput ''stuck''
      then [''That makes sense'', ''Talk more about this'', ''Make this smaller'']
           @ (if hasExplicitOverwhelm \<or> includesStr lowerInput ''overwhelmed''
              then [''Pause for now''] else [])
      else if includesStr lowerInput ''don't get'' \<or> includesStr lowerInput ''dont get''
              \<or> includesStr lowerInput ''don't understand''
              \<or> includesStr lowerInput ''dont understand''
      then [''That makes sense'', ''Talk more about this'', ''Break this down differently'']
           @ (if hasExplicitOverwhelm then [''Pause for now''] else [])
      else [''That makes sense'', ''Talk more about this'', ''Help me get through the minimum'']
           @ (if hasExplicitOverwhelm then [''Pause for now''] else []))"

definition detectsExplicitReadiness :: "string \<Rightarrow> bool" where
  "detectsExplicitReadiness userInput =
     (if userInput = [] then False
      else some [''i'm ready'', ''im ready'', ''ready'', ''let's start'', ''lets start'',
                 ''let's go'', ''lets go'', ''show me'', ''help me start'', ''i want to start'',
                 ''can we start'', ''how do i start'', ''what's the first step'',
                 ''whats the first step'', ''first step'', ''begin'', ''start now'',
                 ''i want to do this'', ''let's do this'', ''lets do this'',
                 ''i'm ready to start'', ''im ready to start'']
             (\<lambda>signal. includesStr (toLowerCase userInput) signal))"

definition directionImpliesAction :: "string \<Rightarrow> bool" where
  "directionImpliesAction directionText =
     (if directionText = [] then False
      else some [''help me get through'', ''help me start'', ''show me'', ''let's start'',
                 ''lets start'', ''make this smaller'', ''break this down'', ''start this'',
                 ''begin'', ''get started'']
             (\<lambda>direction. includesStr (toLowerCase directionText) direction))"

definition isDirectAssignmentRequest :: "config option \<Rightarrow> string \<Rightarrow> bool" where
  "isDirectAssignmentRequest cfg input =
     (case (case cfg of None \<Rightarrow> None
            | Some c \<Rightarrow> (case inputClassification c of None \<Rightarrow> None
                          | Some ic \<Rightarrow> directRequestPatterns ic)) of
        None \<Rightarrow> some directRequestPatternsList (\<lambda>pattern. test pattern input)
      | Some patterns \<Rightarrow> some patterns (\<lambda>pattern. test pattern input))"

definition determineNextModeAfterAnswer :: "modes \<Rightarrow> string \<Rightarrow> signal \<Rightarrow> mode_value" where
  "determineNextModeAfterAnswer M userInput signal =
     (let lowerInput = toLowerCase userInput in
      if sigType signal = ''ready_for_action''
         \<or> includesStr lowerInput ''help'' \<or> includesStr lowerInput ''show me''
         \<or> includesStr lowerInput ''how do'' \<or> includesStr lowerInput ''start''
      then STEPPING M
      else OFFERING_DIRECTION M)"

text \<open>An update of the last turn of the context, as the program does it after checking
  that there is one.\<close>

definition updateLast :: "(turn \<Rightarrow> turn) \<Rightarrow> helper \<Rightarrow> helper" where
  "updateLast f this =
     (if conversationContext this = [] then this
      else this\<lparr> conversationContext :=
             butlast (conversationContext this) @ [f (last (conversationContext this))] \<rparr>)"

definition markQuestion :: "string \<Rightarrow> helper \<Rightarrow> helper" where
  "markQuestion q this = updateLast (\<lambda>t. t\<lparr> hadQuestion := True, lastQuestion := Some q \<rparr>) this"

definition handleQuestionAnswer ::
  "modes \<Rightarrow> helper \<Rightarrow> string \<Rightarrow> signal \<Rightarrow> certainty \<Rightarrow> response \<times> helper" where
  "handleQuestionAnswer M this userInput signal certaintyLevel =
     (let mirror = mirrorAnswer userInput certaintyLevel;
          understanding = acknowledgeUnderstanding userInput signal;
          directionChoices = offerDirectionalOptions userInput signal;
          nextMode = determineNextModeAfterAnswer M userInput signal;
          visibleMode = (if nextMode = SHRINKING M \<or> nextMode = Str ''shrinking''
                         then OFFERING_DIRECTION M else nextMode);
          response = \<lparr> mode = visibleMode,
                       message = Text (mirror @ (case understanding of
                                          None \<Rightarrow> []
                                        | Some u \<Rightarrow> if u = [] then [] else '' '' @ u)),
                       question = None,
                       actions = directionChoices,
                       transitionCue = True \<rparr>;
          this' = updateLast (\<lambda>t. t\<lparr> internalState := Some ''understanding'',
                                     transitionedFromClarifying := True \<rparr>) this
      in (validateSingleMode M response, this'))"

section \<open>The task breakdown planner\<close>

datatype error = TypeError

text \<open>The persona message of a breakdown: one of the approved acknowledgments for the
  type \<^verbatim>\<open>resilience_help\<close>, or the fixed introduction of the type.\<close>

datatype persona = CanSay string | CompareContrastIntro | EssayIntro | ReadingResponseIntro
  | GeneralIntro

record howToStart =
  startTitle :: string
  content :: string

record taskBreakdown =
  bdType :: string
  personaMessage :: persona
  bdHowToStart :: howToStart
  steps :: "step list"

text \<open>
  \<^verbatim>\<open>getPersonaMessage\<close> reads \<^verbatim>\<open>canSay\<close> without a test: when the section
  \<^verbatim>\<open>emotionalAcknowledgment\<close> is there and the list is not, reading its length is a
  TypeError. The argument \<open>rnd\<close> stands for the random number it draws.
\<close>

definition getPersonaMessage :: "config option \<Rightarrow> nat \<Rightarrow> string \<Rightarrow> string \<Rightarrow> error + persona" where
  "getPersonaMessage cfg rnd assignment type =
     (let resilienceMessages =
            (case (case cfg of None \<Rightarrow> None
                   | Some c \<Rightarrow> (case personality c of None \<Rightarrow> None
                                 | Some p \<Rightarrow> emotionalAcknowledgment p)) of
               None \<Rightarrow> Some canSayList
             | Some ea \<Rightarrow> canSay ea)
      in case resilienceMessages of
           None \<Rightarrow> Inl TypeError
         | Some msgs \<Rightarrow>
             Inr (if type = ''resilience_help''
                  then (if msgs = [] then GeneralIntro
                        else (let m = msgs ! (rnd mod length msgs)
                              in if m = [] then GeneralIntro else CanSay m))
                  else if type = ''compare_contrast'' then CompareContrastIntro
                  else if type = ''essay'' then EssayIntro
                  else if type = ''reading_response'' then ReadingResponseIntro
                  else GeneralIntro))"

definition getHowToStart :: "string \<Rightarrow> string \<Rightarrow> howToStart" where
  "getHowToStart assignment type =
     (if type = ''resilience_help''
      then \<lparr> startTitle = ''Let's Start Here'',
          content = ''You're dealing with something difficult right now.'' \<rparr>
      else if type = ''compare_contrast''
      then \<lparr> startTitle = ''How to Get Started'',
          content = ''Before you start, take a moment to think: What's your goal here? Start by identifying ONE theme from the book that really stood out to you. Then, think about where you've seen something similar in the news, social media, or your own life. That connection is your starting point - everything else builds from there.'' \<rparr>
      else if type = ''essay''
      then \<lparr> startTitle = ''How to Get Started'',
          content = ''Don't try to write the whole paper in your head first! Start by just writing down three things you want to say - they don't have to be perfect, they don't even have to be in order. Just get your thoughts on paper. Once you see them written down, your brain will start connecting the dots.'' \<rparr>
      else \<lparr> startTitle = ''How to Get Started'',
          content = ''Before diving in, think: What's the smallest, simplest thing you can do right now? Start with that. It gets your brain moving and helps you see what comes next.'' \<rparr>)"

definition getResilienceSteps :: "string \<Rightarrow> bool \<Rightarrow> step list" where
  "getResilienceSteps assignment includeRegulation =
     (if includeRegulation
      then
        [\<lparr> title = ''Take a Breath'',
           description = ''If you want, you can pause here. You can pause whenever you want.'',
           needsInput = Some False,
           inputPrompt = None,
           inputPlaceholder = None,
           checklist = None,
           analogy = None \<rparr>]
      else [])
     @
     [\<lparr> title = ''Name What's Happening'',
        description = ''What's going on for you right now? Being aware of what you're thinking and feeling is the first step to understanding how to work with it.'',
        needsInput = Some True,
        inputPrompt = Some ''What's on your mind?'',
        inputPlaceholder = Some ''Share what's happening - whatever comes to mind...'',
        checklist = None,
        analogy = None \<rparr>,
      \<lparr> title = ''What Can You Control?'',
        description = ''What can you actually control here? What can't you control? Understanding what's in your control helps you focus your energy where it actually matters.'',
        needsInput = Some True,
        inputPrompt = Some ''What's in your control vs. what's not?'',
        inputPlaceholder = Some ''List what you can control and what you can't...'',
        checklist = None,
        analogy = None \<rparr>,
      \<lparr> title = ''One Small Action'',
        description = ''What's one tiny thing you could do right now? Think about what action would actually help in this situation - not what you 'should' do, but what would actually work.'',
        needsInput = Some True,
        inputPrompt = Some ''What's one small action you could take?'',
        inputPlaceholder = Some ''Type one small thing you could do...'',
        checklist = None,
        analogy = None \<rparr>,
      \<lparr> title = ''Be Kind to Yourself'',
        description = ''What would you tell a friend in this situation?'',
        needsInput = Some True,
        inputPrompt = Some ''What would you say to a friend?'',
        inputPlaceholder = Some ''Type what you'd tell a friend...'',
        checklist = None,
        analogy = None \<rparr>,
      \<lparr> title = ''Remember It's Temporary'',
        description = ''This feeling won't last forever. You've gotten through hard things before. Think about what helped you get through difficult times in the past - that's information about what strategies work for you.'',
        needsInput = Some False,
        inputPrompt = None,
        inputPlaceholder = None,
        checklist = None,
        analogy = None \<rparr>]"

definition getCompareContrastSteps :: "string \<Rightarrow> step list" where
  "getCompareContrastSteps assignment =
     [\<lparr> title = ''Identify the Themes (Like Finding the Main Characters)'',
        description = ''Think of themes as the 'main characters' of the book's message. What big ideas kept showing up? For example, if you read about someone fighting for education, that's a theme. Write down 2-3 themes that really stuck with you - don't overthink it, just what felt important. As you work, notice: Are you understanding the themes, or just guessing? If you're not sure, that's information - it tells you what to focus on.'',
        needsInput = None,
        inputPrompt = None,
        inputPlaceholder = None,
        checklist = Some
          [''List 2-3 main themes from the book'',
           ''For each theme, write one sentence about why it matters'',
           ''Pick the theme that interests you most'',
           ''Check: Do you actually understand this theme, or are you guessing? (This helps you know what to focus on)''],
        analogy = Some ''It's like picking your favorite song from an album - you don't need to analyze every song, just the ones that hit you.'' \<rparr>,
      \<lparr> title = ''Find Current Connections (The 'Wait, This Sounds Familiar' Step)'',
        description = ''Now, where have you seen something similar happening? This doesn't have to be a perfect match - think about the CORE idea. If the book talks about fighting for rights, where do you see people fighting for rights today? News articles, social movements, even school policies can work! While you're looking, pay attention: Are you finding real connections, or forcing them? If connections feel forced, that's a signal to look for a different angle or a different current event.'',
        needsInput = None,
        inputPrompt = None,
        inputPlaceholder = None,
        checklist = Some
          [''Brainstorm 3-5 current events or situations that relate to your chosen theme'',
           ''For each one, write one sentence about the connection'',
           ''Choose 2-3 that have the strongest connections'',
           ''Ask yourself: Do these connections feel real, or am I forcing them? (If forced, try a different angle)''],
        analogy = Some ''Like when you hear a new song and think 'this reminds me of that other song' - you're finding the musical connection. Same idea, but with themes!'' \<rparr>,
      \<lparr> title = ''Create Your Comparison Framework (The Organizing Step)'',
        description = ''This is where you decide HOW you'll compare. Will you talk about similarities first, then differences? Or will you go theme by theme? Create a simple structure: 'I'll compare X from the book to Y happening now, focusing on how they're similar in [way] but different in [way].' Think about which structure makes more sense for your specific comparison - there's no one right way, just what works for your ideas.'',
        needsInput = None,
        inputPrompt = None,
        inputPlaceholder = None,
        checklist = Some
          [''Decide on your comparison structure (similarities vs differences, or theme-by-theme)'',
           (''Write a simple sentence: 'I'm comparing [theme] to [current event]'' @ [CHR 0x27]),
           ''List 2-3 specific points of comparison'',
           ''Ask: Does this structure make sense for what I'm comparing? (If not, try the other approach)''],
        analogy = Some ''It's like planning a road trip - you need to know your starting point, destination, and a few stops along the way. You don't need the whole map, just the main route.'' \<rparr>,
      \<lparr> title = ''Gather Your Evidence (The Detective Work)'',
        description = ''Now find specific examples. From the book: what scene or quote shows your theme? From current events: what specific example shows the connection? You don't need a million examples - just 2-3 solid ones that really prove your point.'',
        needsInput = None,
        inputPrompt = None,
        inputPlaceholder = None,
        checklist = Some
          [''Find 2-3 specific examples from the book (scenes, quotes, or moments)'',
           ''Find 2-3 specific examples from current events (news articles, events, or situations)'',
           ''For each example, write one sentence explaining why it matters''],
        analogy = Some ''Like building a case - you don't need every piece of evidence, just the strongest ones that really prove your point.'' \<rparr>,
      \<lparr> title = ''Write Your First Draft (The 'Just Get It Down' Step)'',
        description = ''Don't worry about perfection! Just write. Start with: 'In [book], one important theme is [theme]. This connects to [current event] because...' Write your thoughts, even if they're messy. You can clean it up later - right now, just get the ideas out of your head and onto paper.'',
        needsInput = None,
        inputPrompt = None,
        inputPlaceholder = None,
        checklist = Some
          [''Write an introduction that states your main comparison'',
           ''Write one paragraph about the theme in the book'',
           ''Write one paragraph about the current connection'',
           ''Write one paragraph comparing them'',
           ''Write a conclusion that ties it together''],
        analogy = Some ''Like making a sandwich - you put all the ingredients together first, then you can adjust and make it look nice. But first, you need the ingredients!'' \<rparr>,
      \<lparr> title = ''Revise and Polish (The 'Make It Shine' Step)'',
        description = ''Now that you have your ideas down, make them clearer. Read through and ask: 'Does this make sense? Can someone else understand my point?' Add transitions between paragraphs, fix any confusing parts, and make sure your examples really support your main idea. After revising, ask yourself: Did this strategy work? What would I do differently next time? This helps you learn what works for you.'',
        needsInput = None,
        inputPrompt = None,
        inputPlaceholder = None,
        checklist = Some
          [''Read through your draft once for clarity'',
           ''Add transition sentences between paragraphs'',
           ''Check that each paragraph has a clear point'',
           ''Fix any spelling or grammar mistakes'',
           ''Read it one more time out loud to catch awkward phrases'',
           ''Reflect: What worked well in this process? What would I change next time?''],
        analogy = Some ''Like editing a photo - the picture is already there, you're just making the colors pop and cropping out the blurry parts.'' \<rparr>]"

definition getEssaySteps :: "string \<Rightarrow> step list" where
  "getEssaySteps assignment =
     [\<lparr> title = ''Understand What You're Being Asked'',
        description = ''Read the assignment carefully and identify the key question or prompt. What is the main thing you need to answer or explain? Before you start, check: Do you actually understand what's being asked, or are you guessing? If you're not sure, that's valuable information - it tells you what to clarify first.'',
        needsInput = None,
        inputPrompt = None,
        inputPlaceholder = None,
        checklist = Some
          [''Highlight the main question in the assignment'',
           ''Identify any key words (analyze, explain, argue, etc.)'',
           ''Write in your own words what you think you need to do'',
           ''Check: Do I actually understand this, or am I guessing? (If guessing, ask for clarification)''],
        analogy = None \<rparr>,
      \<lparr> title = ''Brainstorm Your Ideas'',
        description = ''Don't worry about organization yet - just get your thoughts down. What do you know about this topic? What do you think? As you brainstorm, notice: Are ideas coming easily, or are you stuck? If stuck, that's information - it might mean you need to learn more about the topic first, or approach it from a different angle.'',
        needsInput = None,
        inputPrompt = None,
        inputPlaceholder = None,
        checklist = Some
          [''Write down everything you know about the topic'',
           ''List any questions you have'',
           ''Note any ideas that pop into your head'',
           ''Notice: Are ideas flowing, or am I stuck? (If stuck, try a different approach)''],
        analogy = None \<rparr>,
      \<lparr> title = ''Create an Outline'',
        description = ''Organize your ideas into a simple structure: introduction, main points, conclusion. This is your plan - think about what order makes the most sense for your ideas. Does this structure work for what you want to say? If it feels forced, try a different organization.'',
        needsInput = None,
        inputPrompt = None,
        inputPlaceholder = None,
        checklist = Some
          [''Write your main argument or thesis'',
           ''List 3-5 main points you want to make'',
           ''Decide the order that makes the most sense'',
           ''Check: Does this structure work, or does it feel forced? (If forced, try reorganizing)''],
        analogy = None \<rparr>,
      \<lparr> title = ''Write Your First Draft'',
        description = ''Start writing! Don't worry about perfection - just get your ideas down on paper. As you write, pay attention: Is this flowing, or are you getting stuck? If you're stuck, that's a signal - maybe you need to go back and clarify your ideas, or try writing in a different order.'',
        needsInput = None,
        inputPrompt = None,
        inputPlaceholder = None,
        checklist = Some
          [''Write the introduction'',
           ''Write each body paragraph'',
           ''Write the conclusion'',
           ''Notice while writing: Is this flowing, or am I stuck? (If stuck, try a different approach)''],
        analogy = None \<rparr>,
      \<lparr> title = ''Revise and Edit'',
        description = ''Read through your work and make it better. Check for clarity, flow, and correctness. After revising, think: What worked well in my process? What would I do differently next time? This reflection helps you become a better writer.'',
        needsInput = None,
        inputPrompt = None,
        inputPlaceholder = None,
        checklist = Some
          [''Read through once for content'',
           ''Check for clear transitions'',
           ''Fix grammar and spelling'',
           ''Make sure everything makes sense'',
           ''Reflect: What worked well? What would I change next time?''],
        analogy = None \<rparr>]"

definition getGeneralSteps :: "string \<Rightarrow> step list" where
  "getGeneralSteps assignment =
     [\<lparr> title = ''Break It Into Smaller Pieces'',
        description = ''Look at your assignment and identify the main components. What are the different parts you need to complete? Before you start, think: What's your plan here? Breaking things down helps you see what you're actually dealing with, which makes it less overwhelming.'',
        needsInput = None,
        inputPrompt = None,
        inputPlaceholder = None,
        checklist = Some
          [''List all the parts of the assignment'',
           ''Put them in order of what needs to be done first'',
           ''Identify which parts seem easiest'',
           ''Ask: Does this breakdown make sense? (If not, try a different way of organizing)''],
        analogy = None \<rparr>,
      \<lparr> title = ''Start With the Easiest Part'',
        description = ''Begin with whatever feels most manageable. Getting started is often the hardest part! As you work, notice: Is this strategy working? Are you making progress, or are you still stuck? If stuck, that's information - maybe you need a different starting point.'',
        needsInput = None,
        inputPrompt = None,
        inputPlaceholder = None,
        checklist = Some
          [''Pick the easiest or most interesting part'',
           ''Set a timer for 15-20 minutes'',
           ''Work on just that one part'',
           ''Check: Is this working, or am I still stuck? (If stuck, try a different part)''],
        analogy = None \<rparr>,
      \<lparr> title = ''Tackle the Rest One at a Time'',
        description = ''Work through each part systematically. Don't try to do everything at once. While you work, monitor your progress: Are you understanding what you're doing, or just going through the motions? If you're not understanding, that's a signal to slow down or ask for help.'',
        needsInput = None,
        inputPrompt = None,
        inputPlaceholder = None,
        checklist = Some
          [''Move to the next part'',
           ''Complete it before moving on'',
           ''Take short breaks between parts'',
           ''Monitor: Am I understanding this, or just going through motions? (If not understanding, slow down)''],
        analogy = None \<rparr>,
      \<lparr> title = ''Review and Complete'',
        description = ''Check your work and make sure everything is done and makes sense. After you're done, take a moment to reflect: What worked well in your process? What would you do differently next time? This helps you learn what strategies work for you.'',
        needsInput = None,
        inputPrompt = None,
        inputPlaceholder = None,
        checklist = Some
          [''Review each part'',
           ''Make sure nothing is missing'',
           ''Double-check requirements'',
           ''Reflect: What worked well? What would I change next time?''],
        analogy = None \<rparr>]"


definition getSteps :: "helper \<Rightarrow> string \<Rightarrow> string \<Rightarrow> bool \<Rightarrow> step list" where
  "getSteps this assignment type includeRegulation =
     (if type = ''resilience_help''
      then
        (let hasExplicitOverwhelm =
               detectsOverwhelmSignal (case lastUserInput this of None \<Rightarrow> [] | Some i \<Rightarrow> i);
             userSelectedPause =
               (conversationContext this \<noteq> []
                \<and> userSelectedPause (last (conversationContext this)))
         in getResilienceSteps assignment
              (includeRegulation \<and> (hasExplicitOverwhelm \<or> userSelectedPause)))
      else if type = ''compare_contrast'' then getCompareContrastSteps assignment
      else if type = ''essay'' then getEssaySteps assignment
      else getGeneralSteps assignment)"

definition generateBreakdown ::
  "config option \<Rightarrow> nat \<Rightarrow> helper \<Rightarrow> string \<Rightarrow> string \<Rightarrow> error + taskBreakdown" where
  "generateBreakdown cfg rnd this assignment type =
     (case getPersonaMessage cfg rnd assignment type of
        Inl e \<Rightarrow> Inl e
      | Inr persona \<Rightarrow>
          (let start = getHowToStart assignment type;
               stepList = (if type = ''resilience_help''
                           then (let includeRegulation = detectsOverwhelmSignal assignment
                                 in getSteps this assignment type includeRegulation)
                           else getSteps this assignment type False)
           in Inr \<lparr> bdType = type, personaMessage = persona,
                    bdHowToStart = start, steps = stepList \<rparr>))"

definition breakDownAssignment ::
  "config option \<Rightarrow> nat \<Rightarrow> helper \<Rightarrow> string \<Rightarrow> error + taskBreakdown" where
  "breakDownAssignment cfg rnd this assignment =
     (let lowerAssignment = toLowerCase assignment;
          generalHelpKeywords =
            [''hate'', ''difficult'', ''hard'', ''struggling'', ''stuck'', ''overwhelmed'',
             ''frustrated'', ''anxious'', ''stress'', ''can't'', ''cannot'', ''don't know'',
             ''help me'', ''feel'', ''feeling'', ''deal with'', ''cope'', ''handle'',
             ''situation'', ''problem'', ''issue'', ''doesn't'', ''doesnt'', ''seem'',
             ''relevant'', ''boring'', ''pointless'', ''useless'', ''sucks'', ''not working'',
             ''not helpful'', ''waste of time''];
          hasGeneralHelp = some generalHelpKeywords (\<lambda>keyword. includesStr lowerAssignment keyword)
      in
      if hasGeneralHelp then generateBreakdown cfg rnd this assignment ''resilience_help''
      else generateBreakdown cfg rnd this assignment
             (if includesStr lowerAssignment ''compare'' \<or> includesStr lowerAssignment ''contrast''
                 \<or> includesStr lowerAssignment ''correlate'' \<or> includesStr lowerAssignment ''theme''
              then ''compare_contrast''
              else if includesStr lowerAssignment ''write'' \<and> includesStr lowerAssignment ''paper''
              then ''essay''
              else if includesStr lowerAssignment ''read'' \<or> includesStr lowerAssignment ''book''
              then ''reading_response''
              else ''general''))"

section \<open>The response composer\<close>

text \<open>The argument \<^verbatim>\<open>context\<close> of \<^verbatim>\<open>generateFrankResponse\<close>: of the object that
  \<^verbatim>\<open>buildContext\<close> makes, the composer reads the breakdown only; the default
  \<^verbatim>\<open>{}\<close> has none.\<close>

record callContext =
  breakdown :: "taskBreakdown option"

definition stepToMessage :: "step \<Rightarrow> stepMessage" where
  "stepToMessage firstStep = \<lparr>
     msgTitle = title firstStep,
     msgDescription = description firstStep,
     msgNeedsInput = (needsInput firstStep = Some True),
     msgInputPrompt = (case inputPrompt firstStep of None \<Rightarrow> None
                       | Some t \<Rightarrow> if t = [] then None else Some t),
     msgInputPlaceholder = (case inputPlaceholder firstStep of None \<Rightarrow> None
                            | Some t \<Rightarrow> if t = [] then None else Some t) \<rparr>"

definition defaultTinyStep :: stepMessage where
  "defaultTinyStep = \<lparr>
     msgTitle = ''One Tiny Thing'',
     msgDescription = ''What's the smallest, easiest part you could do right now? Just one thing.'',
     msgNeedsInput = True,
     msgInputPrompt = Some ''What's one tiny thing you could do?'',
     msgInputPlaceholder = Some ''Type one small thing...'' \<rparr>"

definition presentNextTinyStep ::
  "config option \<Rightarrow> nat \<Rightarrow> helper \<Rightarrow> callContext \<Rightarrow> error + stepMessage" where
  "presentNextTinyStep cfg rnd this ctx =
     (if (case breakdown ctx of None \<Rightarrow> False | Some b \<Rightarrow> steps b \<noteq> [])
      then (case breakdown ctx of None \<Rightarrow> Inr defaultTinyStep
            | Some b \<Rightarrow> Inr (stepToMessage (hd (steps b))))
      else if (case currentAssignment this of None \<Rightarrow> False | Some a \<Rightarrow> a \<noteq> [])
      then (case currentAssignment this of None \<Rightarrow> Inr defaultTinyStep
            | Some a \<Rightarrow>
                (case breakDownAssignment cfg rnd this a of
                   Inl e \<Rightarrow> Inl e
                 | Inr b \<Rightarrow> if steps b \<noteq> [] then Inr (stepToMessage (hd (steps b)))
                            else Inr defaultTinyStep))
      else Inr defaultTinyStep)"

text \<open>
  \<^verbatim>\<open>generateFrankResponse\<close>. The result is the response, or the error that escapes, and
  the helper as the call leaves it. \<open>now\<close> is the clock reading and \<open>rnd\<close> the random
  number that a breakdown generated on the way draws. \<open>appendTurn\<close> is the start of
  the function: it stores the input and appends the new turn to the context, before the
  composer looks for a pending question.
\<close>

definition appendTurn :: "nat \<Rightarrow> helper \<Rightarrow> string \<Rightarrow> signal \<Rightarrow> helper" where
  "appendTurn now this userInput signal =
     this\<lparr> lastUserInput := Some userInput,
            conversationContext := conversationContext this @
              [\<lparr> turnInput = userInput, turnSignal = sigType signal,
                 turnCertaintyLevel = sigCertaintyLevel signal, timestamp = now,
                 hadQuestion = False, lastQuestion = None,
                 selectedDirection = None, userSelectedPause = False,
                 internalState = None, transitionedFromClarifying = False \<rparr>] \<rparr>"

definition generateFrankResponse ::
  "modes \<Rightarrow> config option \<Rightarrow> nat \<Rightarrow> nat \<Rightarrow> helper \<Rightarrow> string \<Rightarrow> callContext
     \<Rightarrow> (error + response) \<times> helper" where
  "generateFrankResponse M cfg rnd now this0 userInput ctx =
     (let signal = classifyInput M cfg this0 userInput;
          certaintyLevel = sigCertaintyLevel signal;
          this = appendTurn now this0 userInput signal;
          introducesNew = introducesNewTopic this userInput;
          wasInClarifyingMode = (conversationMode this = CLARIFYING M);
          hadPreviousQuestion = (conversationContext this \<noteq> []
                                 \<and> hadQuestion (last (conversationContext this)));
          answer = (\<lambda>u. case handleQuestionAnswer M this userInput signal certaintyLevel of
                          (r, this') \<Rightarrow> (Inr r, this'));
          clarify = (\<lambda>msg q. (Inr \<lparr> mode = CLARIFYING M, message = Text msg, question = Some q,
                                    actions = [], transitionCue = False \<rparr>,
                               markQuestion q this))
      in
      if wasInClarifyingMode \<and> \<not> introducesNew \<and> hadPreviousQuestion then answer ()
      else if isAnsweringPreviousQuestion M this userInput \<and> \<not> introducesNew then answer ()
      else if sigType signal = ''emotional''
      then (if conversationMode this = CLARIFYING M then answer ()
            else clarify (mirrorEmotion cfg userInput certaintyLevel)
                         (askOneClarifyingQuestion userInput certaintyLevel))
      else if sigType signal = ''explanatory''
      then (if conversationMode this = CLARIFYING M then answer ()
            else clarify (reflectMeaning userInput certaintyLevel)
                         (narrowChoices userInput certaintyLevel))
      else if sigType signal = ''overwhelmed''
      then (if hasLossOfFunction signal = Some True
            then (Inr \<lparr> mode = CALMING M, message = Text gentleReassurance, question = None,
                        actions = [''Pause'', ''Come back later''], transitionCue = False \<rparr>,
                  this)
            else clarify (handleIntensityAsInformation userInput) askFunctionCheckQuestion)
      else if sigType signal = ''intense_emotion''
      then clarify (handleIntensityAsInformation userInput) askFunctionCheckQuestion
      else if sigType signal = ''request_to_shrink''
      then (Inr \<lparr> mode = OFFERING_DIRECTION M,
                  message = Text ''Want to keep going, or make this into one tiny step?'',
                  question = None, actions = [''Make this smaller''], transitionCue = False \<rparr>,
            this)
      else if sigType signal = ''ready_for_action''
      then
        (let hasExplicitReadiness = detectsExplicitReadiness userInput;
             selectedActionDirection =
               (if conversationContext this = [] then None
                else selectedDirection (last (conversationContext this)));
             directionIsAction =
               (case selectedActionDirection of None \<Rightarrow> False
                | Some d \<Rightarrow> d \<noteq> [] \<and> directionImpliesAction d);
             shouldShowActionButtons =
               (hasExplicitReadiness \<or> directionIsAction
                \<or> (length (conversationContext this) = 1 \<and> sigInput signal \<noteq> []
                    \<and> isDirectAssignmentRequest cfg (sigInput signal)))
         in case presentNextTinyStep cfg rnd this ctx of
              Inl e \<Rightarrow> (Inl e, this)
            | Inr msg \<Rightarrow>
                (Inr \<lparr> mode = STEPPING M, message = StepPayload msg, question = None,
                       actions = (if shouldShowActionButtons
                                  then [''Start this step'', ''Make it smaller''] else []),
                       transitionCue = False \<rparr>,
                 this))
      else (Inr \<lparr> mode = LISTENING M, message = Text (mirrorEmotion cfg userInput Medium),
                  question = Some (askOneClarifyingQuestion userInput Medium),
                  actions = [], transitionCue = False \<rparr>,
            this))"

section \<open>A turn of the conversation\<close>

text \<open>\<^verbatim>\<open>Object.values(MODES)\<close>: the values of the keys that the table has.\<close>

definition validModes :: "modes \<Rightarrow> mode_value list" where
  "validModes M =
     filter (\<lambda>v. v \<noteq> Undefined)
       [LISTENING M, CLARIFYING M, OFFERING_DIRECTION M, CALMING M, STEPPING M,
        SHRINKING M, PAUSED M, UNDERSTANDING M]"

definition setConversationMode :: "modes \<Rightarrow> helper \<Rightarrow> mode_value \<Rightarrow> helper" where
  "setConversationMode M this m =
     (if m \<in> set (validModes M) then this\<lparr> conversationMode := m \<rparr> else this)"

definition checkInappropriateContent :: "config option \<Rightarrow> string \<Rightarrow> bool" where
  "checkInappropriateContent cfg input =
     (case (case cfg of None \<Rightarrow> None
            | Some c \<Rightarrow> (case rules c of None \<Rightarrow> None
                          | Some r \<Rightarrow> filterInappropriateContent r)) of
        None \<Rightarrow> False
      | Some f \<Rightarrow>
          filterEnabled f
          \<and> (case categories f of None \<Rightarrow> False
              | Some cats \<Rightarrow>
                  some cats (\<lambda>keywords. some keywords
                    (\<lambda>keyword. includesStr (toLowerCase input) keyword))))"

definition buildContext :: "config option \<Rightarrow> nat \<Rightarrow> helper \<Rightarrow> string \<Rightarrow> error + callContext" where
  "buildContext cfg rnd this input =
     (case breakDownAssignment cfg rnd this input of
        Inl e \<Rightarrow> Inl e
      | Inr b \<Rightarrow> Inr \<lparr> breakdown = Some b \<rparr>)"

text \<open>
  The two entry points of the canonical flow, without the page: \<^verbatim>\<open>processAssignment\<close>
  for the text of the main input (no earlier conversation waiting for an answer) and
  \<^verbatim>\<open>handleAnswerWithCanonicalFlow\<close> for the reply typed under a question. The result is
  the response that is displayed, if any, and the helper afterwards. An error inside
  \<^verbatim>\<open>processAssignment\<close> is caught there and nothing is displayed; the other entry point
  has no handler.
\<close>

definition processAssignment ::
  "modes \<Rightarrow> config option \<Rightarrow> nat \<Rightarrow> nat \<Rightarrow> nat \<Rightarrow> helper \<Rightarrow> string
     \<Rightarrow> response option \<times> helper" where
  "processAssignment M cfg rnd1 rnd2 now this0 rawInput =
     (let input = trim rawInput in
      if input = [] then (None, this0)
      else if checkInappropriateContent cfg input then (None, this0)
      else
        (let this1 = this0\<lparr> currentAssignment := Some input \<rparr> in
         case buildContext cfg rnd1 this1 input of
           Inl e \<Rightarrow> (None, this1)
         | Inr ctx \<Rightarrow>
             (case generateFrankResponse M cfg rnd2 now this1 input ctx of
                (Inl e, this2) \<Rightarrow> (None, this2)
              | (Inr r, this2) \<Rightarrow>
                  if \<not> truthy (mode r) then (None, this2)
                  else
                    (let r' = validateSingleMode M r;
                         this3 = setConversationMode M this2 (mode r')
                     in (Some r',
                         (case question r' of
                            None \<Rightarrow> this3
                          | Some q \<Rightarrow> if q = [] then this3 else markQuestion q this3))))))"

definition handleAnswerWithCanonicalFlow ::
  "modes \<Rightarrow> config option \<Rightarrow> nat \<Rightarrow> nat \<Rightarrow> nat \<Rightarrow> helper \<Rightarrow> string
     \<Rightarrow> (error + response option) \<times> helper" where
  "handleAnswerWithCanonicalFlow M cfg rnd1 rnd2 now this0 answer =
     (if trim answer = [] then (Inr None, this0)
      else if checkInappropriateContent cfg answer then (Inr None, this0)
      else
        (case buildContext cfg rnd1 this0
                (case currentAssignment this0 of
                   None \<Rightarrow> answer
                 | Some a \<Rightarrow> if a = [] then answer else a) of
           Inl e \<Rightarrow> (Inl e, this0)
         | Inr ctx \<Rightarrow>
             (case generateFrankResponse M cfg rnd2 now this0 answer ctx of
                (Inl e, this1) \<Rightarrow> (Inl e, this1)
              | (Inr r, this1) \<Rightarrow> (Inr (Some r), setConversationMode M this1 (mode r)))))"

section \<open>Notions of the specification and the inputs of its examples\<close>

text \<open>The helper as the constructor leaves it.\<close>

definition newHelper :: helper where
  "newHelper = \<lparr> conversationMode = Null, lastUserInput = None, conversationContext = [],
                  currentAssignment = None \<rparr>"

text \<open>The tables of modes that the repository can build: the built-in one and those of
  its two configuration files.\<close>

definition repositoryTable :: "modes \<Rightarrow> bool" where
  "repositoryTable M =
     (M = fallbackModes \<or> M = MODES (Some FRANK_CONFIG) \<or> M = MODES (Some FRANK_CONFIG_config_js))"

definition repositoryConfig :: "config option \<Rightarrow> bool" where
  "repositoryConfig cfg =
     (cfg = None \<or> cfg = Some FRANK_CONFIG \<or> cfg = Some FRANK_CONFIG_config_js)"

text \<open>
  The field whitelist of the modes, in the words of the specification and of the comment
  above \<^verbatim>\<open>validateSingleMode\<close>: listening has no question and no actions, clarifying has
  no actions, offering direction has no question, calming has no question and pause
  actions only, stepping has no question. Here a mode is what the table \<open>M\<close> holds under
  its key, with the legacy keys \<^verbatim>\<open>SHRINKING\<close> and \<^verbatim>\<open>PAUSED\<close> counted as the
  validator counts them.
\<close>

definition respectsWhitelist :: "modes \<Rightarrow> response \<Rightarrow> bool" where
  "respectsWhitelist M r =
     ((mode r = LISTENING M \<longrightarrow> \<not> hasQuestion (question r) \<and> actions r = [])
      \<and> (mode r = CLARIFYING M \<longrightarrow> actions r = [])
      \<and> (mode r = OFFERING_DIRECTION M \<or> mode r = SHRINKING M \<longrightarrow> \<not> hasQuestion (question r))
      \<and> (mode r = CALMING M \<or> mode r = PAUSED M \<longrightarrow>
            \<not> hasQuestion (question r) \<and> list_all isPauseAction (actions r))
      \<and> (mode r = STEPPING M \<longrightarrow> \<not> hasQuestion (question r)))"

text \<open>
  The same whitelist by the names of the five modes, whatever the table: the legal shape of
  a response of the specification, as far as it forbids fields.
\<close>

definition validForMode :: "response \<Rightarrow> bool" where
  "validForMode r =
     ((mode r = Str ''listening'' \<longrightarrow> \<not> hasQuestion (question r) \<and> actions r = [])
      \<and> (mode r = Str ''clarifying'' \<longrightarrow> actions r = [])
      \<and> (mode r = Str ''offering_direction'' \<longrightarrow> \<not> hasQuestion (question r))
      \<and> (mode r = Str ''calming'' \<longrightarrow>
            \<not> hasQuestion (question r) \<and> list_all isPauseAction (actions r))
      \<and> (mode r = Str ''stepping'' \<longrightarrow> \<not> hasQuestion (question r)))"

text \<open>An input with an explicit overwhelm marker: one of the overwhelm signals occurs in
  its lower-case form.\<close>

definition hasOverwhelmMarker :: "string \<Rightarrow> bool" where
  "hasOverwhelmMarker input =
     some overwhelmSignalsList (\<lambda>signal. includesStr (toLowerCase input) signal)"

definition beginsWithTakeABreath :: "taskBreakdown \<Rightarrow> bool" where
  "beginsWithTakeABreath b =
     (case steps b of [] \<Rightarrow> False | firstStep # _ \<Rightarrow> title firstStep = ''Take a Breath'')"

text \<open>A response in listening mode that carries a question.\<close>

definition listeningWithQuestion :: response where
  "listeningWithQuestion = \<lparr> mode = Str ''listening'', message = Text ''I hear you.'',
     question = Some ''What's bothering you about this?'', actions = [],
     transitionCue = False \<rparr>"

text \<open>A helper in clarifying mode whose last turn asked the question of the example:
  the state after the input \<^verbatim>\<open>I hate reading\<close>.\<close>

definition askedWhatFeelsWorst :: helper where
  "askedWhatFeelsWorst = \<lparr>
     conversationMode = Str ''clarifying'',
     lastUserInput = Some ''I hate reading'',
     conversationContext =
       [\<lparr> turnInput = ''I hate reading'', turnSignal = ''emotional'',
          turnCertaintyLevel = High, timestamp = 0, hadQuestion = True,
          lastQuestion = Some ''What about it feels the worst right now?'',
          selectedDirection = None, userSelectedPause = False, internalState = None,
          transitionedFromClarifying = False \<rparr>],
     currentAssignment = Some ''I hate reading'' \<rparr>"

text \<open>A degraded configuration: \<^verbatim>\<open>FRANK_CONFIG\<close> whose section
  \<^verbatim>\<open>emotionalAcknowledgment\<close> has lost the list \<^verbatim>\<open>canSay\<close>. And a helper that has
  an assignment.\<close>

definition configWithoutCanSay :: config where
  "configWithoutCanSay =
     FRANK_CONFIG\<lparr> personality := Some \<lparr> emotionalAcknowledgment = Some \<lparr> canSay = None \<rparr> \<rparr> \<rparr>"

definition helperWithAssignment :: helper where
  "helperWithAssignment = newHelper\<lparr> currentAssignment := Some ''write my essay'' \<rparr>"

text \<open>A configuration in which the list \<^verbatim>\<open>canSay\<close> is there whenever its section is.\<close>

definition canSayPresent :: "config option \<Rightarrow> bool" where
  "canSayPresent cfg =
     (case cfg of None \<Rightarrow> True
      | Some c \<Rightarrow>
          (case personality c of None \<Rightarrow> True
           | Some p \<Rightarrow>
               (case emotionalAcknowledgment p of None \<Rightarrow> True
                | Some ea \<Rightarrow> canSay ea \<noteq> None)))"

section \<open>Properties\<close>

subsection \<open>Auxiliary facts\<close>


lemma classifyInput_types:
  "sigType (classifyInput M cfg this u) \<in>
     {''overwhelmed'', ''intense_emotion'', ''emotional'', ''explanatory'',
      ''request_to_shrink'', ''ready_for_action''}"
  by (simp add: classifyInput_def Let_def split: option.splits)

lemmas validateBlocks_def = validateListening_def validateClarifying_def
  validateOfferingDirection_def validateCalming_def validateStepping_def

lemma validateBlocks_question_None:
  "question r = None \<Longrightarrow> question (validateListening M m r) = None"
  "question r = None \<Longrightarrow> question (validateClarifying M m r) = None"
  "question r = None \<Longrightarrow> question (validateOfferingDirection M m r) = None"
  "question r = None \<Longrightarrow> question (validateCalming M m r) = None"
  "question r = None \<Longrightarrow> question (validateStepping M m r) = None"
  by (simp_all add: validateBlocks_def Let_def)

lemma validateBlocks_mode:
  "question r = None \<Longrightarrow> mode (validateListening M m r) = mode r"
  "mode (validateClarifying M m r) = mode r"
  "mode (validateOfferingDirection M m r) = mode r"
  "mode (validateCalming M m r) = mode r"
  "mode (validateStepping M m r) = mode r"
  by (simp_all add: validateBlocks_def Let_def)

lemma validate_question_None:
  "question r = None \<Longrightarrow> question (validateSingleMode M r) = None"
  by (simp add: validateSingleMode_def Let_def validateBlocks_question_None)

lemma validate_mode_no_question:
  "question r = None \<Longrightarrow> mode (validateSingleMode M r) = mode r"
  by (simp add: validateSingleMode_def Let_def validateBlocks_mode validateBlocks_question_None)

lemma handleQuestionAnswer_question:
  "question (fst (handleQuestionAnswer M this u s c)) = None"
  by (simp add: handleQuestionAnswer_def Let_def validate_question_None)

lemma handleQuestionAnswer_mode:
  "mode (fst (handleQuestionAnswer M this u s c)) \<in> {STEPPING M, OFFERING_DIRECTION M}"
  by (simp add: handleQuestionAnswer_def Let_def validate_mode_no_question determineNextModeAfterAnswer_def)


lemma appendTurn_simps [simp]:
  "conversationMode (appendTurn now this u s) = conversationMode this"
  "conversationContext (appendTurn now this u s) \<noteq> []"
  "hadQuestion (last (conversationContext (appendTurn now this u s))) = False"
  "selectedDirection (last (conversationContext (appendTurn now this u s))) = None"
  "length (conversationContext (appendTurn now this u s)) = Suc (length (conversationContext this))"
  "lastUserInput (appendTurn now this u s) = Some u"
  "currentAssignment (appendTurn now this u s) = currentAssignment this"
  by (simp_all add: appendTurn_def)

lemma isAnswering_appendTurn [simp]:
  "isAnsweringPreviousQuestion M (appendTurn now this u s) v = False"
  by (simp add: isAnsweringPreviousQuestion_def Let_def)

lemma generate_overwhelmed:
  assumes "sigType (classifyInput M cfg this u) = ''overwhelmed''"
  shows "generateFrankResponse M cfg rnd now this u ctx =
     (if hasLossOfFunction (classifyInput M cfg this u) = Some True
      then (Inr \<lparr> mode = CALMING M, message = Text gentleReassurance, question = None,
                  actions = [''Pause'', ''Come back later''], transitionCue = False \<rparr>,
            appendTurn now this u (classifyInput M cfg this u))
      else (Inr \<lparr> mode = CLARIFYING M, message = Text (handleIntensityAsInformation u),
                  question = Some askFunctionCheckQuestion, actions = [], transitionCue = False \<rparr>,
            markQuestion askFunctionCheckQuestion (appendTurn now this u (classifyInput M cfg this u))))"
  using assms
  apply (simp only: generateFrankResponse_def Let_def)
  apply (simp only: list.inject char.inject HOL.simp_thms if_False if_True)
  apply simp
  done

lemma generate_intense_emotion:
  assumes "sigType (classifyInput M cfg this u) = ''intense_emotion''"
  shows "generateFrankResponse M cfg rnd now this u ctx =
     (Inr \<lparr> mode = CLARIFYING M, message = Text (handleIntensityAsInformation u),
            question = Some askFunctionCheckQuestion, actions = [], transitionCue = False \<rparr>,
      markQuestion askFunctionCheckQuestion (appendTurn now this u (classifyInput M cfg this u)))"
  using assms
  apply (simp only: generateFrankResponse_def Let_def)
  apply (simp only: list.inject char.inject HOL.simp_thms if_False if_True)
  apply simp
  done

lemma generate_emotional:
  assumes "sigType (classifyInput M cfg this u) = ''emotional''"
  shows "generateFrankResponse M cfg rnd now this u ctx =
     (let s = classifyInput M cfg this u; this' = appendTurn now this u s in
      if conversationMode this = CLARIFYING M
      then (case handleQuestionAnswer M this' u s (sigCertaintyLevel s) of
              (r, this'') \<Rightarrow> (Inr r, this''))
      else (Inr \<lparr> mode = CLARIFYING M, message = Text (mirrorEmotion cfg u (sigCertaintyLevel s)),
                  question = Some (askOneClarifyingQuestion u (sigCertaintyLevel s)),
                  actions = [], transitionCue = False \<rparr>,
            markQuestion (askOneClarifyingQuestion u (sigCertaintyLevel s)) this'))"
  using assms
  apply (simp only: generateFrankResponse_def Let_def)
  apply (simp only: list.inject char.inject HOL.simp_thms if_False if_True)
  apply simp
  done

lemma generate_explanatory:
  assumes "sigType (classifyInput M cfg this u) = ''explanatory''"
  shows "generateFrankResponse M cfg rnd now this u ctx =
     (let s = classifyInput M cfg this u; this' = appendTurn now this u s in
      if conversationMode this = CLARIFYING M
      then (case handleQuestionAnswer M this' u s (sigCertaintyLevel s) of
              (r, this'') \<Rightarrow> (Inr r, this''))
      else (Inr \<lparr> mode = CLARIFYING M, message = Text (reflectMeaning u (sigCertaintyLevel s)),
                  question = Some (narrowChoices u (sigCertaintyLevel s)),
                  actions = [], transitionCue = False \<rparr>,
            markQuestion (narrowChoices u (sigCertaintyLevel s)) this'))"
  using assms
  apply (simp only: generateFrankResponse_def Let_def)
  apply (simp only: list.inject char.inject HOL.simp_thms if_False if_True)
  apply simp
  done

lemma generate_request_to_shrink:
  assumes "sigType (classifyInput M cfg this u) = ''request_to_shrink''"
  shows "generateFrankResponse M cfg rnd now this u ctx =
     (Inr \<lparr> mode = OFFERING_DIRECTION M,
            message = Text ''Want to keep going, or make this into one tiny step?'',
            question = None, actions = [''Make this smaller''], transitionCue = False \<rparr>,
      appendTurn now this u (classifyInput M cfg this u))"
  using assms
  apply (simp only: generateFrankResponse_def Let_def)
  apply (simp only: list.inject char.inject HOL.simp_thms if_False if_True)
  apply simp
  done

lemma generate_ready_for_action:
  assumes "sigType (classifyInput M cfg this u) = ''ready_for_action''"
  shows "generateFrankResponse M cfg rnd now this u ctx =
     (let s = classifyInput M cfg this u; this' = appendTurn now this u s in
      case presentNextTinyStep cfg rnd this' ctx of
        Inl e \<Rightarrow> (Inl e, this')
      | Inr msg \<Rightarrow>
          (Inr \<lparr> mode = STEPPING M, message = StepPayload msg, question = None,
                 actions = (if detectsExplicitReadiness u
                               \<or> (conversationContext this = [] \<and> sigInput s \<noteq> []
                                   \<and> isDirectAssignmentRequest cfg (sigInput s))
                            then [''Start this step'', ''Make it smaller''] else []),
                 transitionCue = False \<rparr>,
           this'))"
  using assms
  apply (simp only: generateFrankResponse_def Let_def)
  apply (simp only: list.inject char.inject HOL.simp_thms if_False if_True)
  apply simp
  apply blast
  done


lemma handleQuestionAnswer_result:
  "handleQuestionAnswer M th u s c = (r, th') \<Longrightarrow>
     question r = None \<and> (mode r = STEPPING M \<or> mode r = OFFERING_DIRECTION M)"
  using handleQuestionAnswer_question[of M th u s c] handleQuestionAnswer_mode[of M th u s c]
  by simp

lemma signal_cases:
  obtains (ov) "sigType (classifyInput M cfg this u) = ''overwhelmed''"
    | (ie) "sigType (classifyInput M cfg this u) = ''intense_emotion''"
    | (em) "sigType (classifyInput M cfg this u) = ''emotional''"
    | (ex) "sigType (classifyInput M cfg this u) = ''explanatory''"
    | (rs) "sigType (classifyInput M cfg this u) = ''request_to_shrink''"
    | (ra) "sigType (classifyInput M cfg this u) = ''ready_for_action''"
  using classifyInput_types[of M cfg this u] by blast

lemma generate_shape:
  assumes "fst (generateFrankResponse M cfg rnd now this u ctx) = Inr r"
  shows "(question r = None \<and> mode r \<in> {STEPPING M, OFFERING_DIRECTION M, CALMING M})
       \<or> (mode r = CLARIFYING M \<and> actions r = [])"
proof (cases rule: signal_cases[of M cfg this u])
  case ov
  with assms show ?thesis
    by (auto simp: generate_overwhelmed split: if_splits)
next
  case ie
  with assms show ?thesis by (auto simp: generate_intense_emotion)
next
  case em
  with assms show ?thesis
    by (auto simp: generate_emotional Let_def split: if_splits prod.splits
          dest: handleQuestionAnswer_result)
next
  case ex
  with assms show ?thesis
    by (auto simp: generate_explanatory Let_def split: if_splits prod.splits
          dest: handleQuestionAnswer_result)
next
  case rs
  with assms show ?thesis by (auto simp: generate_request_to_shrink)
next
  case ra
  with assms show ?thesis
    by (auto simp: generate_ready_for_action Let_def split: sum.splits)
qed


lemma repositoryTable_values:
  assumes "repositoryTable M"
  shows "LISTENING M = Str ''listening''" "CLARIFYING M = Str ''clarifying''"
    "STEPPING M = Str ''stepping''"
    "OFFERING_DIRECTION M = Str ''offering_direction'' \<or> OFFERING_DIRECTION M = Undefined"
    "CALMING M = Str ''calming'' \<or> CALMING M = Undefined"
  using assms
  by (auto simp: repositoryTable_def fallbackModes_def MODES_def FRANK_CONFIG_def
        FRANK_CONFIG_config_js_def)

lemma repositoryTable_distinct:
  assumes "repositoryTable M"
  shows "CLARIFYING M \<noteq> LISTENING M" "STEPPING M \<noteq> LISTENING M" "STEPPING M \<noteq> CLARIFYING M"
    "OFFERING_DIRECTION M \<noteq> LISTENING M" "OFFERING_DIRECTION M \<noteq> CLARIFYING M"
    "CALMING M \<noteq> LISTENING M" "CALMING M \<noteq> CLARIFYING M"
    "SHRINKING M \<noteq> LISTENING M" "SHRINKING M \<noteq> CLARIFYING M" "SHRINKING M \<noteq> STEPPING M"
    "PAUSED M \<noteq> LISTENING M" "PAUSED M \<noteq> CLARIFYING M" "PAUSED M \<noteq> STEPPING M"
    "PAUSED M \<noteq> SHRINKING M" "PAUSED M \<noteq> OFFERING_DIRECTION M"
    "CALMING M \<noteq> SHRINKING M" "CALMING M \<noteq> STEPPING M" "OFFERING_DIRECTION M \<noteq> STEPPING M"
  using assms
  by (auto simp: repositoryTable_def fallbackModes_def MODES_def FRANK_CONFIG_def
        FRANK_CONFIG_config_js_def)

subsection \<open>C10: the default branch of the dispatch\<close>

text \<open>
  C10. \<^verbatim>\<open>classifyInput\<close> always returns a signal whose type is one of the six values
  that the dispatch of \<^verbatim>\<open>generateFrankResponse\<close> handles, so the default branch, the
  only one that gives the listening mode, is never taken: with any table of modes that
  the repository can build, no response of \<^verbatim>\<open>generateFrankResponse\<close> has the mode
  listening.
\<close>
theorem C10_never_listening:
  "sigType (classifyInput M cfg this u) \<in>
       {''overwhelmed'', ''intense_emotion'', ''emotional'', ''explanatory'',
        ''request_to_shrink'', ''ready_for_action''}
   \<and> (repositoryTable M \<longrightarrow>
        (\<forall>r. fst (generateFrankResponse M cfg rnd now this u ctx) = Inr r \<longrightarrow>
             mode r \<noteq> LISTENING M \<and> mode r \<noteq> Str ''listening''))"
proof (intro conjI impI allI)
  show "sigType (classifyInput M cfg this u) \<in>
       {''overwhelmed'', ''intense_emotion'', ''emotional'', ''explanatory'',
        ''request_to_shrink'', ''ready_for_action''}"
    by (rule classifyInput_types)
next
  fix r
  assume t: "repositoryTable M"
    and g: "fst (generateFrankResponse M cfg rnd now this u ctx) = Inr r"
  have l: "LISTENING M = Str ''listening''" by (rule repositoryTable_values(1)[OF t])
  from generate_shape[OF g] repositoryTable_distinct[OF t]
  show "mode r \<noteq> LISTENING M" by auto
  then show "mode r \<noteq> Str ''listening''" by (simp add: l)
qed

theorem C10_never_listening_witness:
  "repositoryTable fallbackModes
   \<and> fst (generateFrankResponse fallbackModes (Some FRANK_CONFIG) 0 0 newHelper
            ''I hate reading'' \<lparr> breakdown = None \<rparr>)
       = Inr \<lparr> mode = Str ''clarifying'', message = Text ''That sounds really hard.'',
               question = Some ''What about it feels the worst right now?'', actions = [],
               transitionCue = False \<rparr>
   \<and> mode \<lparr> mode = Str ''clarifying'', message = Text ''That sounds really hard.'',
               question = Some ''What about it feels the worst right now?'', actions = [],
               transitionCue = False \<rparr> \<noteq> Str ''listening''"
proof -
  have t: "repositoryTable fallbackModes" by (simp add: repositoryTable_def)
  have g: "fst (generateFrankResponse fallbackModes (Some FRANK_CONFIG) 0 0 newHelper
            ''I hate reading'' \<lparr> breakdown = None \<rparr>)
       = Inr \<lparr> mode = Str ''clarifying'', message = Text ''That sounds really hard.'',
               question = Some ''What about it feels the worst right now?'', actions = [],
               transitionCue = False \<rparr>"
    by code_simp
  from C10_never_listening[of fallbackModes "Some FRANK_CONFIG" newHelper
      "''I hate reading''" 0 0 "\<lparr> breakdown = None \<rparr>"] t g
  show ?thesis by blast
qed

lemma validateBlocks_id:
  "(m = LISTENING M \<longrightarrow> \<not> hasQuestion (question r) \<and> actions r = []) \<Longrightarrow>
     validateListening M m r = r"
  "(m = CLARIFYING M \<longrightarrow> actions r = []) \<Longrightarrow> validateClarifying M m r = r"
  "(m = OFFERING_DIRECTION M \<or> m = SHRINKING M \<longrightarrow> \<not> hasQuestion (question r)) \<Longrightarrow>
     validateOfferingDirection M m r = r"
  "(m = CALMING M \<or> m = PAUSED M \<longrightarrow>
      \<not> hasQuestion (question r) \<and> list_all isPauseAction (actions r)) \<Longrightarrow>
     validateCalming M m r = r"
  "(m = STEPPING M \<longrightarrow> \<not> hasQuestion (question r)) \<Longrightarrow> validateStepping M m r = r"
  by (auto simp: validateBlocks_def Let_def list_all_iff)

lemma validate_valid_id:
  assumes "respectsWhitelist M r"
  shows "validateSingleMode M r = r"
  using assms
  by (simp add: validateSingleMode_def respectsWhitelist_def Let_def validateBlocks_id)

subsection \<open>C2: the field whitelist of the modes\<close>

text \<open>
  C2. Every response of \<^verbatim>\<open>generateFrankResponse\<close> respects the whitelist of its mode:
  a response in clarifying mode has no actions and a response in stepping mode has no
  question; and \<^verbatim>\<open>validateSingleMode\<close> changes nothing in a response that already
  respects the whitelist.
\<close>
theorem C2_whitelist:
  "(repositoryTable M \<longrightarrow>
      (\<forall>r. fst (generateFrankResponse M cfg rnd now this u ctx) = Inr r \<longrightarrow>
           (mode r = Str ''clarifying'' \<longrightarrow> actions r = [])
           \<and> (mode r = Str ''stepping'' \<longrightarrow> question r = None)))
   \<and> (\<forall>r. respectsWhitelist M r \<longrightarrow> validateSingleMode M r = r)"
proof (intro conjI impI allI)
  fix r
  assume t: "repositoryTable M"
    and g: "fst (generateFrankResponse M cfg rnd now this u ctx) = Inr r"
  note v = repositoryTable_values[OF t] and d = repositoryTable_distinct[OF t]
  { assume "mode r = Str ''clarifying''"
    with generate_shape[OF g] v d show "actions r = []" by auto }
  { assume "mode r = Str ''stepping''"
    with generate_shape[OF g] v d show "question r = None" by auto }
next
  fix r assume "respectsWhitelist M r"
  then show "validateSingleMode M r = r" by (rule validate_valid_id)
qed


theorem C2_whitelist_witness:
  "repositoryTable fallbackModes
   \<and> fst (generateFrankResponse fallbackModes (Some FRANK_CONFIG) 0 0 newHelper
            ''I hate reading'' \<lparr> breakdown = None \<rparr>)
       = Inr \<lparr> mode = Str ''clarifying'', message = Text ''That sounds really hard.'',
               question = Some ''What about it feels the worst right now?'', actions = [],
               transitionCue = False \<rparr>
   \<and> respectsWhitelist fallbackModes
        \<lparr> mode = Str ''clarifying'', message = Text ''That sounds really hard.'',
          question = Some ''What about it feels the worst right now?'', actions = [],
          transitionCue = False \<rparr>
   \<and> validateSingleMode fallbackModes
        \<lparr> mode = Str ''clarifying'', message = Text ''That sounds really hard.'',
          question = Some ''What about it feels the worst right now?'', actions = [],
          transitionCue = False \<rparr>
       = \<lparr> mode = Str ''clarifying'', message = Text ''That sounds really hard.'',
           question = Some ''What about it feels the worst right now?'', actions = [],
           transitionCue = False \<rparr>
   \<and> fst (generateFrankResponse fallbackModes (Some FRANK_CONFIG) 0 0 newHelper
            ''how do i start'' \<lparr> breakdown = None \<rparr>)
       = Inr \<lparr> mode = Str ''stepping'', message = StepPayload defaultTinyStep,
               question = None, actions = [''Start this step'', ''Make it smaller''],
               transitionCue = False \<rparr>"
proof -
  have t: "repositoryTable fallbackModes" by (simp add: repositoryTable_def)
  have g: "fst (generateFrankResponse fallbackModes (Some FRANK_CONFIG) 0 0 newHelper
            ''I hate reading'' \<lparr> breakdown = None \<rparr>)
       = Inr \<lparr> mode = Str ''clarifying'', message = Text ''That sounds really hard.'',
               question = Some ''What about it feels the worst right now?'', actions = [],
               transitionCue = False \<rparr>"
    by code_simp
  have g2: "fst (generateFrankResponse fallbackModes (Some FRANK_CONFIG) 0 0 newHelper
            ''how do i start'' \<lparr> breakdown = None \<rparr>)
       = Inr \<lparr> mode = Str ''stepping'', message = StepPayload defaultTinyStep,
               question = None, actions = [''Start this step'', ''Make it smaller''],
               transitionCue = False \<rparr>"
    by code_simp
  have w: "respectsWhitelist fallbackModes
        \<lparr> mode = Str ''clarifying'', message = Text ''That sounds really hard.'',
          question = Some ''What about it feels the worst right now?'', actions = [],
          transitionCue = False \<rparr>"
    by (simp add: respectsWhitelist_def fallbackModes_def)
  from C2_whitelist[of fallbackModes "Some FRANK_CONFIG" 0 0 newHelper
      "''I hate reading''" "\<lparr> breakdown = None \<rparr>"] t g g2 w
  show ?thesis by simp
qed

subsection \<open>C8: what the validator repairs\<close>

text \<open>
  The claim C8 as stated fails: a response in listening mode that carries a question is
  not repaired by removing the question. The validator keeps the question and changes the
  mode to clarifying.
\<close>

theorem C8_counterexample:
  "\<not> validForMode listeningWithQuestion
   \<and> mode (validateSingleMode fallbackModes listeningWithQuestion) \<noteq> mode listeningWithQuestion
   \<and> question (validateSingleMode fallbackModes listeningWithQuestion)
       = Some ''What's bothering you about this?''"
  by (simp add: validForMode_def validateSingleMode_def validateBlocks_def
        listeningWithQuestion_def fallbackModes_def Let_def)

lemma filter_all_of_length:
  "length (filter P xs) = length xs \<Longrightarrow> list_all P xs"
proof (induction xs)
  case Nil
  then show ?case by simp
next
  case (Cons x xs)
  show ?case
  proof (cases "P x")
    case True
    with Cons show ?thesis by simp
  next
    case False
    with Cons.prems have "length (filter P xs) = Suc (length xs)" by simp
    moreover have "length (filter P xs) \<le> length xs" by (rule length_filter_le)
    ultimately show ?thesis by simp
  qed
qed

lemma validateBlocks_message:
  "message (validateListening M m r) = message r"
  "message (validateClarifying M m r) = message r"
  "message (validateOfferingDirection M m r) = message r"
  "message (validateCalming M m r) = message r"
  "message (validateStepping M m r) = message r"
  by (simp_all add: validateBlocks_def Let_def)

lemma validate_message: "message (validateSingleMode M r) = message r"
  by (simp add: validateSingleMode_def Let_def validateBlocks_message)

lemma validateBlocks_question:
  "question (validateListening M m r) = question r"
  "question (validateClarifying M m r) = question r"
  "question (validateOfferingDirection M m r) =
     (if m = OFFERING_DIRECTION M \<or> m = SHRINKING M then
        (if hasQuestion (question r) then None else question r) else question r)"
  "question (validateCalming M m r) =
     (if m = CALMING M \<or> m = PAUSED M then
        (if hasQuestion (question r) then None else question r) else question r)"
  "question (validateStepping M m r) =
     (if m = STEPPING M then (if hasQuestion (question r) then None else question r)
      else question r)"
  by (simp_all add: validateBlocks_def Let_def)

lemma validateBlocks_actions:
  "actions (validateListening M m r) = (if m = LISTENING M then [] else actions r)"
  "actions (validateClarifying M m r) = (if m = CLARIFYING M then [] else actions r)"
  "actions (validateOfferingDirection M m r) = actions r"
  "actions (validateCalming M m r) =
     (if m = CALMING M \<or> m = PAUSED M then filter isPauseAction (actions r) else actions r)"
  "actions (validateStepping M m r) = actions r"
      apply (simp_all add: validateBlocks_def Let_def)
  apply (auto dest!: filter_all_of_length simp: list_all_iff filter_id_conv)
  done

lemma validateBlocks_mode_eq:
  "mode (validateListening M m r) =
     (if m = LISTENING M \<and> hasQuestion (question r) then CLARIFYING M else mode r)"
  by (simp add: validateBlocks_def Let_def)

lemma validateBlocks_transitionCue:
  "transitionCue (validateListening M m r) = transitionCue r"
  "transitionCue (validateClarifying M m r) = transitionCue r"
  "transitionCue (validateOfferingDirection M m r) = transitionCue r"
  "transitionCue (validateCalming M m r) = transitionCue r"
  "transitionCue (validateStepping M m r) = transitionCue r"
  by (simp_all add: validateBlocks_def Let_def)

text \<open>Under a table of the repository, a mode that is a non-empty string is the value of
  the keys of at most one of the five groups that the validator tells apart.\<close>

lemma repositoryTable_groups:
  assumes "repositoryTable M" "truthy v"
  shows "v = LISTENING M \<Longrightarrow> v \<noteq> CLARIFYING M \<and> v \<noteq> OFFERING_DIRECTION M \<and> v \<noteq> SHRINKING M
           \<and> v \<noteq> CALMING M \<and> v \<noteq> PAUSED M \<and> v \<noteq> STEPPING M"
    and "v = CLARIFYING M \<Longrightarrow> v \<noteq> LISTENING M \<and> v \<noteq> OFFERING_DIRECTION M \<and> v \<noteq> SHRINKING M
           \<and> v \<noteq> CALMING M \<and> v \<noteq> PAUSED M \<and> v \<noteq> STEPPING M"
    and "v = OFFERING_DIRECTION M \<or> v = SHRINKING M \<Longrightarrow> v \<noteq> LISTENING M \<and> v \<noteq> CLARIFYING M
           \<and> v \<noteq> CALMING M \<and> v \<noteq> PAUSED M \<and> v \<noteq> STEPPING M"
    and "v = CALMING M \<or> v = PAUSED M \<Longrightarrow> v \<noteq> LISTENING M \<and> v \<noteq> CLARIFYING M
           \<and> v \<noteq> OFFERING_DIRECTION M \<and> v \<noteq> SHRINKING M \<and> v \<noteq> STEPPING M"
    and "v = STEPPING M \<Longrightarrow> v \<noteq> LISTENING M \<and> v \<noteq> CLARIFYING M \<and> v \<noteq> OFFERING_DIRECTION M
           \<and> v \<noteq> SHRINKING M \<and> v \<noteq> CALMING M \<and> v \<noteq> PAUSED M"
  using assms
  by (auto simp: repositoryTable_def fallbackModes_def MODES_def FRANK_CONFIG_def
        FRANK_CONFIG_config_js_def)

lemma validate_fields:
  assumes t: "repositoryTable M" and m: "truthy (mode r)"
  shows "mode (validateSingleMode M r) =
      (if mode r = LISTENING M \<and> hasQuestion (question r) then CLARIFYING M else mode r)"
    and "question (validateSingleMode M r) =
      (if (mode r = OFFERING_DIRECTION M \<or> mode r = SHRINKING M \<or> mode r = CALMING M
           \<or> mode r = PAUSED M \<or> mode r = STEPPING M) \<and> hasQuestion (question r)
       then None else question r)"
    and "actions (validateSingleMode M r) =
      (if mode r = LISTENING M \<or> mode r = CLARIFYING M then []
       else if mode r = CALMING M \<or> mode r = PAUSED M then filter isPauseAction (actions r)
       else actions r)"
    and "message (validateSingleMode M r) = message r"
    and "transitionCue (validateSingleMode M r) = transitionCue r"
proof -
  note d = repositoryTable_distinct[OF t]
  show "mode (validateSingleMode M r) =
      (if mode r = LISTENING M \<and> hasQuestion (question r) then CLARIFYING M else mode r)"
    using m by (simp add: validateSingleMode_def Let_def validateBlocks_mode validateBlocks_mode_eq)
  show "question (validateSingleMode M r) =
      (if (mode r = OFFERING_DIRECTION M \<or> mode r = SHRINKING M \<or> mode r = CALMING M
           \<or> mode r = PAUSED M \<or> mode r = STEPPING M) \<and> hasQuestion (question r)
       then None else question r)"
    using m by (auto simp: validateSingleMode_def Let_def validateBlocks_question)
  show "actions (validateSingleMode M r) =
      (if mode r = LISTENING M \<or> mode r = CLARIFYING M then []
       else if mode r = CALMING M \<or> mode r = PAUSED M then filter isPauseAction (actions r)
       else actions r)"
    using m d by (auto simp: validateSingleMode_def Let_def validateBlocks_actions)
  show "message (validateSingleMode M r) = message r" by (rule validate_message)
  show "transitionCue (validateSingleMode M r) = transitionCue r"
    by (simp add: validateSingleMode_def Let_def validateBlocks_transitionCue)
qed

lemma validate_respectsWhitelist:
  assumes t: "repositoryTable M" and m: "truthy (mode r)"
  shows "respectsWhitelist M (validateSingleMode M r)"
proof -
  note f = validate_fields[OF t m] and d = repositoryTable_distinct[OF t]
  from m d show ?thesis
    unfolding respectsWhitelist_def f
    by (auto simp: list_all_iff)
qed

lemma validate_mode_in_table:
  assumes t: "repositoryTable M"
    and k: "mode r \<in> {LISTENING M, CLARIFYING M, OFFERING_DIRECTION M, CALMING M, STEPPING M}"
  shows "mode (validateSingleMode M r)
           \<in> {LISTENING M, CLARIFYING M, OFFERING_DIRECTION M, CALMING M, STEPPING M}"
proof (cases "truthy (mode r)")
  case False
  with k show ?thesis by (simp add: validateSingleMode_def)
next
  case True
  from k show ?thesis by (auto simp: validate_fields(1)[OF t True])
qed

lemma respectsWhitelist_validForMode:
  assumes t: "repositoryTable M" and w: "respectsWhitelist M r"
    and k: "mode r \<in> {LISTENING M, CLARIFYING M, OFFERING_DIRECTION M, CALMING M, STEPPING M}"
  shows "validForMode r"
  using repositoryTable_values[OF t] w k
  unfolding validForMode_def respectsWhitelist_def
  by auto

text \<open>
  C8, amended. For every table of modes of the repository, \<^verbatim>\<open>validateSingleMode\<close> returns
  for every response, and what it returns is the response itself with exactly these fields
  replaced. A response without a mode, or with a mode that the table does not hold under one
  of the seven keys of the validator, is returned as it is. A listening response loses all
  its actions; when it carries a question, the question is kept and the mode becomes
  clarifying. A clarifying response loses all its actions. An offering-direction, shrinking
  or stepping response loses its question. A calming or paused response loses its question
  and those of its actions that are not pause actions. Nothing else changes: the message and
  the transition cue are kept, and so is the mode except in the one listening case. When the
  mode of the response is one that the table holds under the keys of the five modes, the
  result is a valid response for the mode it names.
\<close>

theorem C8_validate_repairs:
  "repositoryTable M \<longrightarrow>
     validateSingleMode M r =
       (if \<not> truthy (mode r) then r
        else if mode r = LISTENING M
        then r\<lparr> mode := (if hasQuestion (question r) then CLARIFYING M else mode r),
                actions := [] \<rparr>
        else if mode r = CLARIFYING M
        then r\<lparr> actions := [] \<rparr>
        else if mode r = OFFERING_DIRECTION M \<or> mode r = SHRINKING M \<or> mode r = STEPPING M
        then r\<lparr> question := (if hasQuestion (question r) then None else question r) \<rparr>
        else if mode r = CALMING M \<or> mode r = PAUSED M
        then r\<lparr> question := (if hasQuestion (question r) then None else question r),
                actions := filter isPauseAction (actions r) \<rparr>
        else r)
     \<and> (mode r \<in> {LISTENING M, CLARIFYING M, OFFERING_DIRECTION M, CALMING M, STEPPING M} \<longrightarrow>
          validForMode (validateSingleMode M r))"
proof (intro impI conjI)
  assume t: "repositoryTable M"
  show "validateSingleMode M r =
       (if \<not> truthy (mode r) then r
        else if mode r = LISTENING M
        then r\<lparr> mode := (if hasQuestion (question r) then CLARIFYING M else mode r),
                actions := [] \<rparr>
        else if mode r = CLARIFYING M
        then r\<lparr> actions := [] \<rparr>
        else if mode r = OFFERING_DIRECTION M \<or> mode r = SHRINKING M \<or> mode r = STEPPING M
        then r\<lparr> question := (if hasQuestion (question r) then None else question r) \<rparr>
        else if mode r = CALMING M \<or> mode r = PAUSED M
        then r\<lparr> question := (if hasQuestion (question r) then None else question r),
                actions := filter isPauseAction (actions r) \<rparr>
        else r)"
  proof (cases "truthy (mode r)")
    case False
    then show ?thesis by (simp add: validateSingleMode_def)
  next
    case True
    note f = validate_fields[OF t True] and g = repositoryTable_groups[OF t True]
    consider (l) "mode r = LISTENING M" | (c) "mode r = CLARIFYING M"
      | (o1) "mode r = OFFERING_DIRECTION M" | (o2) "mode r = SHRINKING M"
      | (s) "mode r = STEPPING M" | (p1) "mode r = CALMING M" | (p2) "mode r = PAUSED M"
      | (x) "mode r \<noteq> LISTENING M" "mode r \<noteq> CLARIFYING M" "mode r \<noteq> OFFERING_DIRECTION M"
          "mode r \<noteq> SHRINKING M" "mode r \<noteq> STEPPING M" "mode r \<noteq> CALMING M"
          "mode r \<noteq> PAUSED M"
      by blast
    then show ?thesis
    proof cases
      case l
      from g(1)[OF l] l True show ?thesis
        by (intro response.equality) (simp_all add: f)
    next
      case c
      from g(2)[OF c] c True show ?thesis
        by (intro response.equality) (simp_all add: f)
    next
      case o1
      from g(3)[OF disjI1[OF o1]] o1 True show ?thesis
        by (intro response.equality) (simp_all add: f)
    next
      case o2
      from g(3)[OF disjI2[OF o2]] o2 True show ?thesis
        by (intro response.equality) (simp_all add: f)
    next
      case s
      from g(5)[OF s] s True show ?thesis
        by (intro response.equality) (simp_all add: f)
    next
      case p1
      from g(4)[OF disjI1[OF p1]] p1 True show ?thesis
        by (intro response.equality) (simp_all add: f)
    next
      case p2
      from g(4)[OF disjI2[OF p2]] p2 True show ?thesis
        by (intro response.equality) (simp_all add: f)
    next
      case x
      with True show ?thesis
        by (intro response.equality) (simp_all add: f)
    qed
  qed
next
  assume t: "repositoryTable M"
    and k: "mode r \<in> {LISTENING M, CLARIFYING M, OFFERING_DIRECTION M, CALMING M, STEPPING M}"
  show "validForMode (validateSingleMode M r)"
  proof (cases "truthy (mode r)")
    case False
    then have "mode r \<noteq> Str ''listening''" "mode r \<noteq> Str ''clarifying''"
      "mode r \<noteq> Str ''offering_direction''" "mode r \<noteq> Str ''calming''"
      "mode r \<noteq> Str ''stepping''"
      by auto
    with False show ?thesis by (simp add: validateSingleMode_def validForMode_def)
  next
    case True
    show ?thesis
      by (rule respectsWhitelist_validForMode[OF t validate_respectsWhitelist[OF t True]
            validate_mode_in_table[OF t k]])
  qed
qed

theorem C8_validate_repairs_witness:
  "repositoryTable fallbackModes
   \<and> mode \<lparr> mode = Str ''calming'', message = Text ''You can pause whenever you want.'',
             question = Some ''Ready?'', actions = [''Pause'', ''Start this step''],
             transitionCue = False \<rparr>
       \<in> {LISTENING fallbackModes, CLARIFYING fallbackModes, OFFERING_DIRECTION fallbackModes,
          CALMING fallbackModes, STEPPING fallbackModes}
   \<and> validateSingleMode fallbackModes
        \<lparr> mode = Str ''calming'', message = Text ''You can pause whenever you want.'',
          question = Some ''Ready?'', actions = [''Pause'', ''Start this step''],
          transitionCue = False \<rparr>
       = \<lparr> mode = Str ''calming'', message = Text ''You can pause whenever you want.'',
           question = None, actions = [''Pause''], transitionCue = False \<rparr>
   \<and> validForMode
        (validateSingleMode fallbackModes
          \<lparr> mode = Str ''calming'', message = Text ''You can pause whenever you want.'',
            question = Some ''Ready?'', actions = [''Pause'', ''Start this step''],
            transitionCue = False \<rparr>)"
proof -
  have t: "repositoryTable fallbackModes" by (simp add: repositoryTable_def)
  have k: "mode \<lparr> mode = Str ''calming'', message = Text ''You can pause whenever you want.'',
             question = Some ''Ready?'', actions = [''Pause'', ''Start this step''],
             transitionCue = False \<rparr>
       \<in> {LISTENING fallbackModes, CLARIFYING fallbackModes, OFFERING_DIRECTION fallbackModes,
          CALMING fallbackModes, STEPPING fallbackModes}"
    by (simp add: fallbackModes_def)
  have p: "isPauseAction ''Pause''" "\<not> isPauseAction ''Start this step''" by code_simp+
  note c = mp[OF C8_validate_repairs[of fallbackModes
      "\<lparr> mode = Str ''calming'', message = Text ''You can pause whenever you want.'',
         question = Some ''Ready?'', actions = [''Pause'', ''Start this step''],
         transitionCue = False \<rparr>"] t]
  have e: "validateSingleMode fallbackModes
        \<lparr> mode = Str ''calming'', message = Text ''You can pause whenever you want.'',
          question = Some ''Ready?'', actions = [''Pause'', ''Start this step''],
          transitionCue = False \<rparr>
       = \<lparr> mode = Str ''calming'', message = Text ''You can pause whenever you want.'',
           question = None, actions = [''Pause''], transitionCue = False \<rparr>"
    using c[THEN conjunct1] by (simp add: fallbackModes_def p)
  note w = mp[OF c[THEN conjunct2] k]
  from t k e w show ?thesis by blast
qed

text \<open>
  The tables built from the two configuration objects have no entry for calming and
  offering direction, so a response with one of these names as its mode is compared with
  \<^verbatim>\<open>undefined\<close> in every block and comes back as it was, its question included.
\<close>

lemma validate_calming_under_config:
  "validateSingleMode (MODES (Some FRANK_CONFIG))
      \<lparr> mode = Str ''calming'', message = Text ''You can pause whenever you want.'',
        question = Some ''Ready?'', actions = [''Pause'', ''Start this step''],
        transitionCue = False \<rparr>
    = \<lparr> mode = Str ''calming'', message = Text ''You can pause whenever you want.'',
        question = Some ''Ready?'', actions = [''Pause'', ''Start this step''],
        transitionCue = False \<rparr>"
  "validateSingleMode (MODES (Some FRANK_CONFIG_config_js))
      \<lparr> mode = Str ''calming'', message = Text ''You can pause whenever you want.'',
        question = Some ''Ready?'', actions = [''Pause'', ''Start this step''],
        transitionCue = False \<rparr>
    = \<lparr> mode = Str ''calming'', message = Text ''You can pause whenever you want.'',
        question = Some ''Ready?'', actions = [''Pause'', ''Start this step''],
        transitionCue = False \<rparr>"
  by code_simp+

lemma detectsOverwhelmSignal_marker:
  "detectsOverwhelmSignal a \<Longrightarrow> hasOverwhelmMarker a"
  by (simp add: detectsOverwhelmSignal_def hasOverwhelmMarker_def Let_def split: if_splits)

subsection \<open>C7: the regulation step of a resilience breakdown\<close>

text \<open>
  The claim C7 as stated fails: for a helper that has seen no input yet, the breakdown of
  an input with an explicit overwhelm marker does not begin with the step
  \<^verbatim>\<open>Take a Breath\<close>.
\<close>

theorem C7_counterexample:
  "hasOverwhelmMarker ''i can't handle this''
   \<and> detectsOverwhelmSignal ''i can't handle this''
   \<and> map_sum id beginsWithTakeABreath
        (generateBreakdown (Some FRANK_CONFIG) 0 newHelper ''i can't handle this''
           ''resilience_help'') = Inr False"
  by code_simp

text \<open>
  C7, amended. A breakdown of type \<^verbatim>\<open>resilience_help\<close> begins with the step
  \<^verbatim>\<open>Take a Breath\<close> if and only if the input that it is generated from passes
  \<^verbatim>\<open>detectsOverwhelmSignal\<close> and, in addition, the input stored by the last call of
  \<^verbatim>\<open>generateFrankResponse\<close> passes it or the last turn of the context is flagged
  \<^verbatim>\<open>userSelectedPause\<close>. So the step is there only if the input has an explicit
  overwhelm marker, and a breakdown from an input with no such marker has a first step
  with another title.
\<close>

theorem C7_take_a_breath:
  "generateBreakdown cfg rnd this a ''resilience_help'' = Inr b \<longrightarrow>
     (beginsWithTakeABreath b
        = (detectsOverwhelmSignal a
           \<and> (detectsOverwhelmSignal (case lastUserInput this of None \<Rightarrow> [] | Some i \<Rightarrow> i)
               \<or> (conversationContext this \<noteq> []
                   \<and> userSelectedPause (last (conversationContext this))))))
     \<and> (beginsWithTakeABreath b \<longrightarrow> hasOverwhelmMarker a)
     \<and> (\<not> hasOverwhelmMarker a \<longrightarrow> steps b \<noteq> [] \<and> title (hd (steps b)) \<noteq> ''Take a Breath'')"
proof (intro impI)
  assume g: "generateBreakdown cfg rnd this a ''resilience_help'' = Inr b"
  define reg where "reg = (detectsOverwhelmSignal a
           \<and> (detectsOverwhelmSignal (case lastUserInput this of None \<Rightarrow> [] | Some i \<Rightarrow> i)
               \<or> (conversationContext this \<noteq> []
                   \<and> userSelectedPause (last (conversationContext this)))))"
  from g have st: "steps b = getResilienceSteps a reg"
    by (auto simp: generateBreakdown_def getSteps_def Let_def reg_def split: sum.splits)
  have b1: "beginsWithTakeABreath b = reg"
    by (simp add: beginsWithTakeABreath_def st getResilienceSteps_def)
  have b2: "steps b \<noteq> []" by (simp add: st getResilienceSteps_def)
  have b3: "\<not> reg \<Longrightarrow> title (hd (steps b)) \<noteq> ''Take a Breath''"
    by (simp add: st getResilienceSteps_def)
  have b4: "reg \<Longrightarrow> hasOverwhelmMarker a"
    by (simp add: reg_def detectsOverwhelmSignal_marker)
  from b1 b2 b3 b4 show
    "(beginsWithTakeABreath b
        = (detectsOverwhelmSignal a
           \<and> (detectsOverwhelmSignal (case lastUserInput this of None \<Rightarrow> [] | Some i \<Rightarrow> i)
               \<or> (conversationContext this \<noteq> []
                   \<and> userSelectedPause (last (conversationContext this))))))
     \<and> (beginsWithTakeABreath b \<longrightarrow> hasOverwhelmMarker a)
     \<and> (\<not> hasOverwhelmMarker a \<longrightarrow> steps b \<noteq> [] \<and> title (hd (steps b)) \<noteq> ''Take a Breath'')"
    unfolding reg_def[symmetric] by blast
qed

theorem C7_take_a_breath_witness:
  "map_sum id beginsWithTakeABreath
     (generateBreakdown (Some FRANK_CONFIG) 0 (newHelper\<lparr> lastUserInput := Some ''this is too much'' \<rparr>)
        ''i can't handle this'' ''resilience_help'') = Inr True
   \<and> hasOverwhelmMarker ''i can't handle this''"
proof -
  have e: "map_sum id beginsWithTakeABreath
     (generateBreakdown (Some FRANK_CONFIG) 0 (newHelper\<lparr> lastUserInput := Some ''this is too much'' \<rparr>)
        ''i can't handle this'' ''resilience_help'') = Inr True"
    by code_simp
  then obtain b where
    g: "generateBreakdown (Some FRANK_CONFIG) 0 (newHelper\<lparr> lastUserInput := Some ''this is too much'' \<rparr>)
          ''i can't handle this'' ''resilience_help'' = Inr b"
    and t: "beginsWithTakeABreath b"
    by (cases "generateBreakdown (Some FRANK_CONFIG) 0
          (newHelper\<lparr> lastUserInput := Some ''this is too much'' \<rparr>)
          ''i can't handle this'' ''resilience_help''") auto
  from C7_take_a_breath[of "Some FRANK_CONFIG" 0
      "newHelper\<lparr> lastUserInput := Some ''this is too much'' \<rparr>" "''i can't handle this''" b] g t
  have "hasOverwhelmMarker ''i can't handle this''" by blast
  with e show ?thesis by simp
qed

lemma classifyInput_mode_only:
  "classifyInput M cfg this u =
     classifyInput fallbackModes cfg
       (newHelper\<lparr> conversationMode :=
          (if conversationMode this = CLARIFYING M then Str ''clarifying'' else Null) \<rparr>) u"
proof (cases "conversationMode this = CLARIFYING M")
  case True
  then show ?thesis
    by (simp add: classifyInput_def fallbackModes_def newHelper_def Let_def
          cong: option.case_cong if_cong)
next
  case False
  then show ?thesis
    by (simp add: classifyInput_def fallbackModes_def newHelper_def Let_def
          cong: option.case_cong if_cong)
qed

lemma classifyInput_certainty:
  "inputClassification c \<noteq> None \<Longrightarrow>
     sigCertaintyLevel (classifyInput M (Some c) this u) = detectCertaintyLevel (Some c) u"
  by (auto simp: classifyInput_def Let_def)

subsection \<open>C6: the certainty of a hedged but pointed input\<close>

text \<open>
  The claim C6 as stated fails: the certainty level of the input
  \<^verbatim>\<open>this feels kind of pointless\<close> is not low, and the mirror of the response is
  not a hedged phrase.
\<close>

theorem C6_counterexample:
  "sigCertaintyLevel (classifyInput (MODES (Some FRANK_CONFIG)) (Some FRANK_CONFIG) newHelper
       ''this feels kind of pointless'') \<noteq> Low
   \<and> fst (generateFrankResponse (MODES (Some FRANK_CONFIG)) (Some FRANK_CONFIG) 0 0 newHelper
       ''this feels kind of pointless'' \<lparr> breakdown = None \<rparr>)
       = Inr \<lparr> mode = Str ''clarifying'', message = Text ''That question makes sense.'',
               question = Some ''What's missing that would make it feel meaningful?'',
               actions = [], transitionCue = False \<rparr>"
  by code_simp

text \<open>
  C6, amended. Classifying the input \<^verbatim>\<open>this feels kind of pointless\<close> yields the
  certainty level high, since the high-certainty marker \<^verbatim>\<open>pointless\<close> is looked for
  before the low-certainty marker \<^verbatim>\<open>kind of\<close>; the mirror for it is a direct phrase.
  Certainty detection looks for the high-certainty markers first, then for the
  low-certainty markers, and gives medium for a text with neither, for the empty text and
  without the section of the configuration.
\<close>

theorem C6_certainty:
  "sigCertaintyLevel (classifyInput M (Some FRANK_CONFIG) this ''this feels kind of pointless'')
     = High
   \<and> mirrorEmotion (Some FRANK_CONFIG) ''this feels kind of pointless'' High
       = ''That question makes sense.''
   \<and> mirrorEmotion (Some FRANK_CONFIG_config_js) ''this feels kind of pointless'' High
       = ''When something doesn't feel meaningful, it's hard to engage with it.''
   \<and> (certaintyConfig cfg = Some cc \<longrightarrow> u \<noteq> [] \<longrightarrow>
        detectCertaintyLevel cfg u =
          (if someOpt (highCertaintyMarkers cc) (\<lambda>marker. includesStr (toLowerCase u) marker)
           then High
           else if someOpt (lowCertaintyMarkers cc) (\<lambda>marker. includesStr (toLowerCase u) marker)
           then Low else Medium))
   \<and> (certaintyConfig cfg = None \<or> u = [] \<longrightarrow> detectCertaintyLevel cfg u = Medium)"
proof (intro conjI impI)
  have ic: "inputClassification FRANK_CONFIG \<noteq> None" by (simp add: FRANK_CONFIG_def)
  have d: "detectCertaintyLevel (Some FRANK_CONFIG) ''this feels kind of pointless'' = High"
    by code_simp
  show "sigCertaintyLevel (classifyInput M (Some FRANK_CONFIG) this ''this feels kind of pointless'')
     = High"
    by (simp add: classifyInput_certainty[OF ic] d)
  show "mirrorEmotion (Some FRANK_CONFIG) ''this feels kind of pointless'' High
       = ''That question makes sense.''"
    by code_simp
  show "mirrorEmotion (Some FRANK_CONFIG_config_js) ''this feels kind of pointless'' High
       = ''When something doesn't feel meaningful, it's hard to engage with it.''"
    by code_simp
next
  assume "certaintyConfig cfg = Some cc" "u \<noteq> []"
  then show "detectCertaintyLevel cfg u =
          (if someOpt (highCertaintyMarkers cc) (\<lambda>marker. includesStr (toLowerCase u) marker)
           then High
           else if someOpt (lowCertaintyMarkers cc) (\<lambda>marker. includesStr (toLowerCase u) marker)
           then Low else Medium)"
    by (simp add: detectCertaintyLevel_def Let_def)
next
  assume "certaintyConfig cfg = None \<or> u = []"
  then show "detectCertaintyLevel cfg u = Medium"
    by (auto simp: detectCertaintyLevel_def)
qed

theorem C6_certainty_witness:
  "certaintyConfig (Some FRANK_CONFIG) = Some certaintyHandlingSection
   \<and> ''it is kind of pointless'' \<noteq> []
   \<and> someOpt (highCertaintyMarkers certaintyHandlingSection)
        (\<lambda>marker. includesStr (toLowerCase ''it is kind of pointless'') marker)
   \<and> someOpt (lowCertaintyMarkers certaintyHandlingSection)
        (\<lambda>marker. includesStr (toLowerCase ''it is kind of pointless'') marker)
   \<and> detectCertaintyLevel (Some FRANK_CONFIG) ''it is kind of pointless'' = High
   \<and> detectCertaintyLevel None ''it is kind of pointless'' = Medium"
proof -
  have c: "certaintyConfig (Some FRANK_CONFIG) = Some certaintyHandlingSection"
    by (simp add: certaintyConfig_def FRANK_CONFIG_def)
  have n: "certaintyConfig None = None" by (simp add: certaintyConfig_def)
  have h: "someOpt (highCertaintyMarkers certaintyHandlingSection)
        (\<lambda>marker. includesStr (toLowerCase ''it is kind of pointless'') marker)"
    by code_simp
  have l: "someOpt (lowCertaintyMarkers certaintyHandlingSection)
        (\<lambda>marker. includesStr (toLowerCase ''it is kind of pointless'') marker)"
    by code_simp
  from C6_certainty[of fallbackModes newHelper "Some FRANK_CONFIG" certaintyHandlingSection
      "''it is kind of pointless''"]
    C6_certainty[of fallbackModes newHelper None certaintyHandlingSection
      "''it is kind of pointless''"] c n h l
  show ?thesis by simp
qed

subsection \<open>C3: an input with an intensity marker only\<close>

text \<open>
  The claim C3 as stated fails: the input \<^verbatim>\<open>I can't do this, it's too much\<close> is not
  classified as overwhelmed with loss of function, and its response is not in calming
  mode, with either table of modes.
\<close>

theorem C3_counterexample:
  "sigType (classifyInput (MODES (Some FRANK_CONFIG)) (Some FRANK_CONFIG) newHelper
       ''I can't do this, it's too much'') \<noteq> ''overwhelmed''
   \<and> hasLossOfFunction (classifyInput (MODES (Some FRANK_CONFIG)) (Some FRANK_CONFIG) newHelper
       ''I can't do this, it's too much'') \<noteq> Some True
   \<and> map_sum id mode (fst (generateFrankResponse (MODES (Some FRANK_CONFIG)) (Some FRANK_CONFIG)
       0 0 newHelper ''I can't do this, it's too much'' \<lparr> breakdown = None \<rparr>))
       \<noteq> Inr (Str ''calming'')
   \<and> map_sum id mode (fst (generateFrankResponse fallbackModes (Some FRANK_CONFIG)
       0 0 newHelper ''I can't do this, it's too much'' \<lparr> breakdown = None \<rparr>))
       \<noteq> Inr (Str ''calming'')"
  by code_simp

text \<open>
  C3, amended. For the input \<^verbatim>\<open>I can't do this, it's too much\<close>, which has the
  intensity marker \<^verbatim>\<open>too much\<close> and no loss-of-function marker, \<^verbatim>\<open>classifyInput\<close>
  returns the type \<^verbatim>\<open>intense_emotion\<close> with \<^verbatim>\<open>hasLossOfFunction\<close> false, in every
  state of the helper, and the response generated for it is in clarifying mode, with the
  function-check question and no actions.
\<close>

theorem C3_intensity_not_loss_of_function:
  "classifyInput M (Some FRANK_CONFIG) this ''I can't do this, it's too much''
     = \<lparr> sigType = ''intense_emotion'', sigInput = ''I can't do this, it's too much'',
         sigCertaintyLevel = High, hasLossOfFunction = Some False \<rparr>
   \<and> \<not> some lossOfFunctionSignalsList
          (\<lambda>s. includesStr (toLowerCase ''I can't do this, it's too much'') s)
   \<and> fst (generateFrankResponse M (Some FRANK_CONFIG) rnd now this
            ''I can't do this, it's too much'' ctx)
       = Inr \<lparr> mode = CLARIFYING M,
               message = Text ''When something feels unbearable, it's often because it's colliding with something important.'',
               question = Some ''Are you still able to think, or do you want to slow things down?'',
               actions = [], transitionCue = False \<rparr>
   \<and> CLARIFYING (MODES (Some FRANK_CONFIG)) = Str ''clarifying''
   \<and> CLARIFYING fallbackModes = Str ''clarifying''"
proof -
  have a: "classifyInput fallbackModes (Some FRANK_CONFIG)
             (newHelper\<lparr> conversationMode := Str ''clarifying'' \<rparr>) ''I can't do this, it's too much''
     = \<lparr> sigType = ''intense_emotion'', sigInput = ''I can't do this, it's too much'',
         sigCertaintyLevel = High, hasLossOfFunction = Some False \<rparr>"
    by code_simp
  have b: "classifyInput fallbackModes (Some FRANK_CONFIG)
             (newHelper\<lparr> conversationMode := Null \<rparr>) ''I can't do this, it's too much''
     = \<lparr> sigType = ''intense_emotion'', sigInput = ''I can't do this, it's too much'',
         sigCertaintyLevel = High, hasLossOfFunction = Some False \<rparr>"
    by code_simp
  have c: "classifyInput M (Some FRANK_CONFIG) this ''I can't do this, it's too much''
     = \<lparr> sigType = ''intense_emotion'', sigInput = ''I can't do this, it's too much'',
         sigCertaintyLevel = High, hasLossOfFunction = Some False \<rparr>"
    by (subst classifyInput_mode_only) (simp add: a b)
  have t: "sigType (classifyInput M (Some FRANK_CONFIG) this ''I can't do this, it's too much'')
     = ''intense_emotion''"
    by (simp add: c)
  have n: "\<not> some lossOfFunctionSignalsList
          (\<lambda>s. includesStr (toLowerCase ''I can't do this, it's too much'') s)"
    by code_simp
  have h: "handleIntensityAsInformation ''I can't do this, it's too much''
     = ''When something feels unbearable, it's often because it's colliding with something important.''"
    by code_simp
  have q: "askFunctionCheckQuestion
     = ''Are you still able to think, or do you want to slow things down?''"
    by (simp add: askFunctionCheckQuestion_def)
  have g: "fst (generateFrankResponse M (Some FRANK_CONFIG) rnd now this
            ''I can't do this, it's too much'' ctx)
       = Inr \<lparr> mode = CLARIFYING M,
               message = Text ''When something feels unbearable, it's often because it's colliding with something important.'',
               question = Some ''Are you still able to think, or do you want to slow things down?'',
               actions = [], transitionCue = False \<rparr>"
    by (simp only: generate_intense_emotion[OF t] fst_conv h q)
  have m1: "CLARIFYING (MODES (Some FRANK_CONFIG)) = Str ''clarifying''"
    by (simp add: MODES_def FRANK_CONFIG_def)
  have m2: "CLARIFYING fallbackModes = Str ''clarifying''"
    by (simp add: fallbackModes_def)
  from c n g m1 m2 show ?thesis by blast
qed

subsection \<open>C1: the response to a loss of function\<close>

text \<open>
  C1, on the input \<^verbatim>\<open>my mind is blank\<close> with the configuration that has the
  loss-of-function signals. The signal is overwhelmed with loss of function, the response
  has no question and the actions \<^verbatim>\<open>Pause\<close> and \<^verbatim>\<open>Come back later\<close>; but the
  table of modes taken from that configuration has no key \<^verbatim>\<open>CALMING\<close>, so the mode of
  the response is undefined, and \<^verbatim>\<open>processAssignment\<close> refuses the response for its
  missing mode. With the built-in table the mode is calming.
\<close>

theorem C1_calming_mode_undefined:
  "classifyInput (MODES (Some FRANK_CONFIG)) (Some FRANK_CONFIG) newHelper ''my mind is blank''
     = \<lparr> sigType = ''overwhelmed'', sigInput = ''my mind is blank'',
         sigCertaintyLevel = Medium, hasLossOfFunction = Some True \<rparr>
   \<and> fst (generateFrankResponse (MODES (Some FRANK_CONFIG)) (Some FRANK_CONFIG) 0 0 newHelper
            ''my mind is blank'' \<lparr> breakdown = None \<rparr>)
       = Inr \<lparr> mode = Undefined, message = Text ''You can pause whenever you want.'',
               question = None, actions = [''Pause'', ''Come back later''],
               transitionCue = False \<rparr>
   \<and> fst (processAssignment (MODES (Some FRANK_CONFIG)) (Some FRANK_CONFIG) 0 0 0 newHelper
            ''my mind is blank'') = None
   \<and> fst (generateFrankResponse fallbackModes (Some FRANK_CONFIG) 0 0 newHelper
            ''my mind is blank'' \<lparr> breakdown = None \<rparr>)
       = Inr \<lparr> mode = Str ''calming'', message = Text ''You can pause whenever you want.'',
               question = None, actions = [''Pause'', ''Come back later''],
               transitionCue = False \<rparr>"
  by code_simp

text \<open>What holds of C1 for every input with a loss-of-function marker: the signal, and the
  response up to the value that the table gives for \<^verbatim>\<open>CALMING\<close>.\<close>

lemma lossOfFunction_response:
  assumes ic: "inputClassification c \<noteq> None"
    and d: "dobrowskiEnabled (Some c) = Some dp"
    and ia: "intensityAsInformation dp = Some ia"
    and l: "lossOfFunctionSignals ia = Some signals"
    and m: "marker \<in> set signals" "includesStr (toLowerCase u) marker"
  shows "sigType (classifyInput M (Some c) this u) = ''overwhelmed''"
    and "hasLossOfFunction (classifyInput M (Some c) this u) = Some True"
    and "fst (generateFrankResponse M (Some c) rnd now this u ctx)
       = Inr \<lparr> mode = CALMING M, message = Text ''You can pause whenever you want.'',
               question = None, actions = [''Pause'', ''Come back later''],
               transitionCue = False \<rparr>"
proof -
  from m have s: "some signals (\<lambda>s. includesStr (toLowerCase u) s)"
    by (auto simp: some_def list_ex_iff)
  from ic obtain cc where cc: "inputClassification c = Some cc" by auto
  show t: "sigType (classifyInput M (Some c) this u) = ''overwhelmed''"
    by (simp add: classifyInput_def Let_def cc d ia l s)
  show h: "hasLossOfFunction (classifyInput M (Some c) this u) = Some True"
    by (simp add: classifyInput_def Let_def cc d ia l s)
  show "fst (generateFrankResponse M (Some c) rnd now this u ctx)
       = Inr \<lparr> mode = CALMING M, message = Text ''You can pause whenever you want.'',
               question = None, actions = [''Pause'', ''Come back later''],
               transitionCue = False \<rparr>"
    by (simp add: generate_overwhelmed[OF t] h gentleReassurance_def)
qed

subsection \<open>C4: two clarifying questions in a row\<close>

text \<open>
  C4, on two turns. The input \<^verbatim>\<open>this is unbearable\<close> gets the function-check
  question and leaves the helper in clarifying mode; the reply \<^verbatim>\<open>it is too much\<close>
  gets the same response, with the same question, again. The composer looks for the
  pending question in the last turn of the context after it has appended the new turn
  (\<open>isAnswering_appendTurn\<close>), and the branch of \<^verbatim>\<open>intense_emotion\<close> has no check of
  the clarifying mode of its own.
\<close>

theorem C4_repeated_question:
  "fst (processAssignment (MODES (Some FRANK_CONFIG)) (Some FRANK_CONFIG) 0 0 0 newHelper
          ''this is unbearable'')
     = Some \<lparr> mode = Str ''clarifying'',
              message = Text ''When something feels unbearable, it's often because it's colliding with something important.'',
              question = Some ''Are you still able to think, or do you want to slow things down?'',
              actions = [], transitionCue = False \<rparr>
   \<and> conversationMode (snd (processAssignment (MODES (Some FRANK_CONFIG)) (Some FRANK_CONFIG)
          0 0 0 newHelper ''this is unbearable'')) = Str ''clarifying''
   \<and> fst (handleAnswerWithCanonicalFlow (MODES (Some FRANK_CONFIG)) (Some FRANK_CONFIG) 0 0 1
          (snd (processAssignment (MODES (Some FRANK_CONFIG)) (Some FRANK_CONFIG) 0 0 0 newHelper
                  ''this is unbearable''))
          ''it is too much'')
     = Inr (Some \<lparr> mode = Str ''clarifying'',
              message = Text ''When something feels unbearable, it's often because it's colliding with something important.'',
              question = Some ''Are you still able to think, or do you want to slow things down?'',
              actions = [], transitionCue = False \<rparr>)"
  by code_simp

subsection \<open>C9: an error that escapes the composer\<close>

text \<open>
  C9, on a degraded configuration: \<^verbatim>\<open>personality.emotionalAcknowledgment\<close> is there and
  its list \<^verbatim>\<open>canSay\<close> is not. For a helper that has an assignment, called without a
  breakdown in the context, the input \<^verbatim>\<open>how do i start my essay\<close> is ready for action,
  the step is taken from a new breakdown, and \<^verbatim>\<open>getPersonaMessage\<close> reads the length
  of the missing list: a TypeError escapes \<^verbatim>\<open>generateFrankResponse\<close>.
\<close>

theorem C9_exception_escapes:
  "fst (generateFrankResponse (MODES (Some configWithoutCanSay)) (Some configWithoutCanSay) 0 0
          helperWithAssignment ''how do i start my essay'' \<lparr> breakdown = None \<rparr>)
     = Inl TypeError"
  by code_simp

subsection \<open>When the composer returns a response\<close>

text \<open>With the list \<^verbatim>\<open>canSay\<close> in place wherever its section is, as in every
  configuration file of the repository, \<^verbatim>\<open>generateFrankResponse\<close> returns a response
  for every input, helper and context.\<close>

lemma getPersonaMessage_total:
  "canSayPresent cfg \<Longrightarrow> \<exists>p. getPersonaMessage cfg rnd a t = Inr p"
  by (auto simp: canSayPresent_def getPersonaMessage_def Let_def split: option.splits)

lemma generateBreakdown_total:
  "canSayPresent cfg \<Longrightarrow> \<exists>b. generateBreakdown cfg rnd this a t = Inr b"
  using getPersonaMessage_total[of cfg rnd a t]
  by (auto simp: generateBreakdown_def Let_def)

lemma breakDownAssignment_total:
  "canSayPresent cfg \<Longrightarrow> \<exists>b. breakDownAssignment cfg rnd this a = Inr b"
  by (simp add: breakDownAssignment_def Let_def generateBreakdown_total)

lemma presentNextTinyStep_total:
  assumes "canSayPresent cfg"
  shows "\<exists>m. presentNextTinyStep cfg rnd this ctx = Inr m"
proof (cases "currentAssignment this")
  case None
  then show ?thesis by (simp add: presentNextTinyStep_def split: option.splits)
next
  case (Some a)
  obtain b where "breakDownAssignment cfg rnd this a = Inr b"
    using breakDownAssignment_total[OF assms] by blast
  with Some show ?thesis by (simp add: presentNextTinyStep_def split: option.splits)
qed

lemma generate_total:
  assumes "canSayPresent cfg"
  shows "\<exists>r. fst (generateFrankResponse M cfg rnd now this u ctx) = Inr r"
proof (cases rule: signal_cases[of M cfg this u])
  case ov
  then show ?thesis by (simp add: generate_overwhelmed)
next
  case ie
  then show ?thesis by (simp add: generate_intense_emotion)
next
  case em
  then show ?thesis by (simp add: generate_emotional Let_def split: prod.splits)
next
  case ex
  then show ?thesis by (simp add: generate_explanatory Let_def split: prod.splits)
next
  case rs
  then show ?thesis by (simp add: generate_request_to_shrink)
next
  case ra
  obtain m where "presentNextTinyStep cfg rnd
       (appendTurn now this u (classifyInput M cfg this u)) ctx = Inr m"
    using presentNextTinyStep_total[OF assms] by blast
  with ra show ?thesis by (simp add: generate_ready_for_action Let_def)
qed

lemma repositoryConfig_canSay: "repositoryConfig cfg \<Longrightarrow> canSayPresent cfg"
  by (auto simp: repositoryConfig_def canSayPresent_def FRANK_CONFIG_def
        FRANK_CONFIG_config_js_def personalitySection_def)

text \<open>In clarifying mode, a response to an input that is neither overwhelmed nor an
  intense emotion has no question and is in stepping or offering-direction mode.\<close>

lemma generate_in_clarifying_mode:
  assumes c: "conversationMode this = CLARIFYING M"
    and s: "sigType (classifyInput M cfg this u) \<noteq> ''overwhelmed''"
           "sigType (classifyInput M cfg this u) \<noteq> ''intense_emotion''"
    and g: "fst (generateFrankResponse M cfg rnd now this u ctx) = Inr r"
  shows "question r = None \<and> (mode r = STEPPING M \<or> mode r = OFFERING_DIRECTION M)"
proof (cases rule: signal_cases[of M cfg this u])
  case ov
  with s show ?thesis by simp
next
  case ie
  with s show ?thesis by simp
next
  case em
  with g c show ?thesis
    by (auto simp: generate_emotional Let_def split: prod.splits dest: handleQuestionAnswer_result)
next
  case ex
  with g c show ?thesis
    by (auto simp: generate_explanatory Let_def split: prod.splits dest: handleQuestionAnswer_result)
next
  case rs
  with g show ?thesis by (auto simp: generate_request_to_shrink)
next
  case ra
  with g show ?thesis by (auto simp: generate_ready_for_action Let_def split: sum.splits)
qed

lemma checkSemanticAlignment_clarifying:
  "conversationMode this = CLARIFYING M \<Longrightarrow>
     checkSemanticAlignment M this u q =
       checkSemanticAlignment fallbackModes (newHelper\<lparr> conversationMode := Str ''clarifying'' \<rparr>) u q"
  by (simp add: checkSemanticAlignment_def fallbackModes_def newHelper_def Let_def)

lemma reading_is_confusing_type:
  assumes "repositoryConfig cfg" "conversationMode this = CLARIFYING M"
  shows "sigType (classifyInput M cfg this ''the reading is just confusing'')
           \<in> {''ready_for_action'', ''emotional''}"
proof -
  have a: "sigType (classifyInput fallbackModes None
             (newHelper\<lparr> conversationMode := Str ''clarifying'' \<rparr>)
             ''the reading is just confusing'') = ''emotional''"
    by code_simp
  have b: "sigType (classifyInput fallbackModes (Some FRANK_CONFIG)
             (newHelper\<lparr> conversationMode := Str ''clarifying'' \<rparr>)
             ''the reading is just confusing'') = ''ready_for_action''"
    by code_simp
  have c: "sigType (classifyInput fallbackModes (Some FRANK_CONFIG_config_js)
             (newHelper\<lparr> conversationMode := Str ''clarifying'' \<rparr>)
             ''the reading is just confusing'') = ''ready_for_action''"
    by code_simp
  from assms(1) show ?thesis
    unfolding repositoryConfig_def
    by (subst classifyInput_mode_only) (auto simp: assms(2) a b c)
qed

subsection \<open>C5: the reply to the question about what feels worst\<close>

text \<open>
  C5. Let the helper be in clarifying mode and let the last turn of its context be recorded
  with \<^verbatim>\<open>hadQuestion\<close> and the question
  \<^verbatim>\<open>What about it feels the worst right now?\<close>. Then, for the input
  \<^verbatim>\<open>the reading is just confusing\<close>, the answer detector returns true, and the response
  generated for the input is not in clarifying mode and has no question. This holds with
  every table of modes and every configuration of the repository.
\<close>

theorem C5_answer_not_questioned_again:
  "repositoryTable M \<longrightarrow> repositoryConfig cfg \<longrightarrow>
   conversationMode this = CLARIFYING M \<longrightarrow> conversationContext this \<noteq> [] \<longrightarrow>
   hadQuestion (last (conversationContext this)) \<longrightarrow>
   lastQuestion (last (conversationContext this))
     = Some ''What about it feels the worst right now?'' \<longrightarrow>
     isAnsweringPreviousQuestion M this ''the reading is just confusing''
     \<and> (\<exists>r. fst (generateFrankResponse M cfg rnd now this ''the reading is just confusing'' ctx)
               = Inr r
             \<and> mode r \<noteq> CLARIFYING M \<and> mode r \<noteq> Str ''clarifying'' \<and> question r = None)"
proof (intro impI)
  assume t: "repositoryTable M" and rc: "repositoryConfig cfg"
    and c: "conversationMode this = CLARIFYING M"
    and ne: "conversationContext this \<noteq> []"
    and hq: "hadQuestion (last (conversationContext this))"
    and lq: "lastQuestion (last (conversationContext this))
               = Some ''What about it feels the worst right now?''"
  have s1: "isShortOrDeclarative ''the reading is just confusing''" by code_simp
  have s2: "checkSemanticAlignment fallbackModes
              (newHelper\<lparr> conversationMode := Str ''clarifying'' \<rparr>)
              ''the reading is just confusing'' ''What about it feels the worst right now?''"
    by code_simp
  have s3: "reducesAmbiguity ''the reading is just confusing''" by code_simp
  have ans: "isAnsweringPreviousQuestion M this ''the reading is just confusing''"
    using ne hq lq s1 s2 s3
    by (simp add: isAnsweringPreviousQuestion_def Let_def isSemanticAnswer_def
          checkSemanticAlignment_clarifying[OF c])
  from generate_total[OF repositoryConfig_canSay[OF rc]] obtain r where
    g: "fst (generateFrankResponse M cfg rnd now this ''the reading is just confusing'' ctx)
          = Inr r"
    by blast
  from reading_is_confusing_type[OF rc c]
  have ty: "sigType (classifyInput M cfg this ''the reading is just confusing'') \<noteq> ''overwhelmed''"
    "sigType (classifyInput M cfg this ''the reading is just confusing'') \<noteq> ''intense_emotion''"
    by auto
  from generate_in_clarifying_mode[OF c ty g]
  have q: "question r = None" and m: "mode r = STEPPING M \<or> mode r = OFFERING_DIRECTION M"
    by auto
  from m repositoryTable_distinct[OF t] have m1: "mode r \<noteq> CLARIFYING M" by auto
  then have m2: "mode r \<noteq> Str ''clarifying''"
    by (simp add: repositoryTable_values(2)[OF t])
  from ans g q m1 m2 show
    "isAnsweringPreviousQuestion M this ''the reading is just confusing''
     \<and> (\<exists>r. fst (generateFrankResponse M cfg rnd now this ''the reading is just confusing'' ctx)
               = Inr r
             \<and> mode r \<noteq> CLARIFYING M \<and> mode r \<noteq> Str ''clarifying'' \<and> question r = None)"
    by blast
qed

theorem C5_answer_not_questioned_again_witness:
  "repositoryTable (MODES (Some FRANK_CONFIG)) \<and> repositoryConfig (Some FRANK_CONFIG)
   \<and> conversationMode askedWhatFeelsWorst = CLARIFYING (MODES (Some FRANK_CONFIG))
   \<and> conversationContext askedWhatFeelsWorst \<noteq> []
   \<and> hadQuestion (last (conversationContext askedWhatFeelsWorst))
   \<and> lastQuestion (last (conversationContext askedWhatFeelsWorst))
       = Some ''What about it feels the worst right now?''
   \<and> isAnsweringPreviousQuestion (MODES (Some FRANK_CONFIG)) askedWhatFeelsWorst
        ''the reading is just confusing''
   \<and> map_sum id (\<lambda>r. (mode r, question r))
        (fst (generateFrankResponse (MODES (Some FRANK_CONFIG)) (Some FRANK_CONFIG) 0 1
               askedWhatFeelsWorst ''the reading is just confusing'' \<lparr> breakdown = None \<rparr>))
       = Inr (Str ''stepping'', None)"
proof -
  have t: "repositoryTable (MODES (Some FRANK_CONFIG))" by (simp add: repositoryTable_def)
  have rc: "repositoryConfig (Some FRANK_CONFIG)" by (simp add: repositoryConfig_def)
  have h: "conversationMode askedWhatFeelsWorst = CLARIFYING (MODES (Some FRANK_CONFIG))"
    "conversationContext askedWhatFeelsWorst \<noteq> []"
    "hadQuestion (last (conversationContext askedWhatFeelsWorst))"
    "lastQuestion (last (conversationContext askedWhatFeelsWorst))
       = Some ''What about it feels the worst right now?''"
    by (simp_all add: askedWhatFeelsWorst_def MODES_def FRANK_CONFIG_def)
  have e: "map_sum id (\<lambda>r. (mode r, question r))
        (fst (generateFrankResponse (MODES (Some FRANK_CONFIG)) (Some FRANK_CONFIG) 0 1
               askedWhatFeelsWorst ''the reading is just confusing'' \<lparr> breakdown = None \<rparr>))
       = Inr (Str ''stepping'', None)"
    by code_simp
  from C5_answer_not_questioned_again[of "MODES (Some FRANK_CONFIG)" "Some FRANK_CONFIG"
      askedWhatFeelsWorst 0 1 "\<lparr> breakdown = None \<rparr>"] t rc h
  have "isAnsweringPreviousQuestion (MODES (Some FRANK_CONFIG)) askedWhatFeelsWorst
        ''the reading is just confusing''"
    by blast
  with t rc h e show ?thesis by blast
qed

end
